theory Spec2Isabelle
  imports Complex_Main "HOL-Library.AList"
begin

section \<open>The Theanets classifier adapter of \<^verbatim>\<open>rep/estimators/theanets.py\<close>\<close>

text \<open>
  The adapter is a Python object whose methods mutate it; here every method takes the
  adapter's state and returns the new one. A method that raises gives the exception
  together with the state the adapter has at that moment.

  A keyword dictionary is an association list with distinct keys, read with
  \<open>map_of\<close>, written with \<open>AList.update\<close>.
\<close>

subsection \<open>Values and errors\<close>

text \<open>
  The values that travel through keyword arguments. A float is carried as mantissa and
  binary exponent (the value \<open>m * 2 ^ e\<close>); no arithmetic is done on it.
\<close>

datatype pyval =
    PNone
  | PBool bool
  | PInt int
  | PFloat int int
  | PStr string
  | PList "pyval list"
  | PDict "(string \<times> pyval) list"

type_synonym kwargs = "(string \<times> pyval) list"

text \<open>
  The exceptions of the source. \<open>AttributeError\<close> carries its message.
  \<open>ValidationError\<close> is whatever \<^verbatim>\<open>check_inputs\<close> raises. \<open>External\<close> is an
  exception raised inside scikit-learn or theanets, with its name. \<open>Untyped\<close> is not an
  exception of the source: it marks an assignment through \<^verbatim>\<open>setattr\<close> of a value
  outside the documented type of the attribute, which the typed state below cannot hold.
\<close>

datatype error =
    AttributeError string
  | ValueError
  | IndexError
  | TypeError
  | KeyError string
  | NotImplementedError
  | AssertionError
  | ValidationError
  | External string
  | Untyped string

subsection \<open>The external libraries\<close>

text \<open>
  \<^verbatim>\<open>theanets\<close> is outside the repository. Its experiment handle is represented by
  what was done to it: the layer sequence and options it was constructed with, and the
  training calls that returned on it since, in order. The bytes that the handle writes to
  a file stand for the handle that wrote them.
\<close>

record 'd tnt_experiment =
  net_layers :: "pyval list"
  net_options :: kwargs
  net_trained :: "('d list list \<times> int list \<times> kwargs) list"

datatype 'd blob = Blob "'d tnt_experiment"

text \<open>
  What the libraries compute, and whether a call into them raises, is not in the source:
  it is a parameter of every definition that calls them.
  \<^item> \<open>fit_transform\<close> is \<^verbatim>\<open>MinMaxScaler().fit_transform(Imputer().fit_transform(.))\<close>
    on the columns of the selected features; it gives the columns of the resulting
    array, which need not be as many, or the name of the exception it raises;
  \<^item> \<open>astype_float32\<close> is \<^verbatim>\<open>.astype(numpy.float32)\<close> on that array;
  \<^item> \<open>Experiment_raises\<close>, \<open>train_raises\<close> and \<open>save_raises\<close> give the name of the
    exception when \<^verbatim>\<open>tnt.Experiment(tnt.Classifier, layers=..., **options)\<close>,
    \<^verbatim>\<open>exp.train(data, **trainer)\<close> and \<^verbatim>\<open>exp.save(path)\<close> raise;
  \<^item> \<open>load_gives\<close> is the state of a handle after \<^verbatim>\<open>exp.load(path)\<close>, or the
    exception;
  \<^item> \<open>predict_gives\<close> is \<^verbatim>\<open>exp.network.predict(array)\<close>, or the exception.
\<close>

record ('c, 'd, 'p) library =
  fit_transform :: "'c list list \<Rightarrow> string + 'd list list"
  astype_float32 :: "'d list list \<Rightarrow> 'd list list"
  Experiment_raises :: "pyval list \<Rightarrow> kwargs \<Rightarrow> string option"
  train_raises :: "'d tnt_experiment \<Rightarrow> 'd list list \<times> int list \<Rightarrow> kwargs \<Rightarrow> string option"
  save_raises :: "'d tnt_experiment \<Rightarrow> string option"
  load_gives :: "'d tnt_experiment \<Rightarrow> 'd blob \<Rightarrow> string + 'd tnt_experiment"
  predict_gives :: "'d tnt_experiment \<Rightarrow> 'd list list \<Rightarrow> string + 'p"

definition Experiment ::
  "('c, 'd, 'p) library \<Rightarrow> pyval list \<Rightarrow> kwargs \<Rightarrow> error + 'd tnt_experiment" where
  "Experiment lib ls opts =
     (case Experiment_raises lib ls opts of
        Some name \<Rightarrow> Inl (External name)
      | None \<Rightarrow> Inr \<lparr>net_layers = ls, net_options = opts, net_trained = []\<rparr>)"

definition train ::
  "('c, 'd, 'p) library \<Rightarrow> 'd tnt_experiment \<Rightarrow> 'd list list \<times> int list \<Rightarrow> kwargs
     \<Rightarrow> error + 'd tnt_experiment" where
  "train lib e data trainer =
     (case train_raises lib e data trainer of
        Some name \<Rightarrow> Inl (External name)
      | None \<Rightarrow> Inr (e\<lparr>net_trained := net_trained e @ [(fst data, snd data, trainer)]\<rparr>))"

definition save :: "('c, 'd, 'p) library \<Rightarrow> 'd tnt_experiment \<Rightarrow> error + 'd blob" where
  "save lib e = (case save_raises lib e of Some name \<Rightarrow> Inl (External name) | None \<Rightarrow> Inr (Blob e))"

definition load ::
  "('c, 'd, 'p) library \<Rightarrow> 'd tnt_experiment \<Rightarrow> 'd blob \<Rightarrow> error + 'd tnt_experiment" where
  "load lib e dump = (case load_gives lib e dump of Inl name \<Rightarrow> Inl (External name) | Inr e' \<Rightarrow> Inr e')"

definition predict ::
  "('c, 'd, 'p) library \<Rightarrow> 'd tnt_experiment \<Rightarrow> 'd list list \<Rightarrow> error + 'p" where
  "predict lib e X = (case predict_gives lib e X of Inl name \<Rightarrow> Inl (External name) | Inr p \<Rightarrow> Inr p)"

text \<open>
  \<^verbatim>\<open>.astype(numpy.int32)\<close> on the labels: a label outside the 32-bit range wraps
  around.
\<close>

definition int32 :: "int \<Rightarrow> int" where
  "int32 v = (v + 2147483648) mod 4294967296 - 2147483648"

definition astype_int32 :: "int list \<Rightarrow> int list" where
  "astype_int32 y = map int32 y"

subsection \<open>The adapter\<close>

text \<open>
  The instance dictionary. The field \<open>classes\<close> is the attribute
  \<^verbatim>\<open>classes_\<close>; it is \<open>None\<close> while the attribute does not exist (it is
  first assigned in \<^verbatim>\<open>partial_fit\<close>).

  \<^verbatim>\<open>self.trainers\<close> is a list of dictionary objects, and the source changes such an
  object in place. Each position of the list is therefore a pair of the identity of the
  object there and the items the object has; two positions with the same identity are one
  object.
\<close>

type_synonym stage = "nat \<times> kwargs"

record config =
  layers :: "pyval list"
  input_layer :: int
  output_layer :: int
  network_params :: kwargs
  trainers :: "stage list"
  features :: "string list option"
  classes :: "int list option"

record 'd adapter = config +
  exp :: "'d tnt_experiment option"

record 'd state_dict = config +
  dumped_exp :: "'d blob option"

text \<open>An exception with the adapter as it is at the raise, or the adapter returned.\<close>

type_synonym 'd outcome = "(error \<times> 'd adapter) + 'd adapter"

definition TheanetsClassifier ::
  "pyval list \<Rightarrow> int \<Rightarrow> int \<Rightarrow> pyval \<Rightarrow> pyval \<Rightarrow> pyval \<Rightarrow> pyval \<Rightarrow> pyval \<Rightarrow> pyval \<Rightarrow> pyval
     \<Rightarrow> pyval \<Rightarrow> string list option \<Rightarrow> stage list option \<Rightarrow> 'd adapter" where
  "TheanetsClassifier layers0 input_layer0 output_layer0 hidden_activation output_activation rng
       input_noise hidden_noise input_dropouts hidden_dropouts decode_from features0 trainers0 =
     \<lparr>layers = layers0,
      input_layer = input_layer0,
      output_layer = output_layer0,
      network_params =
        [(''hidden_activation'', hidden_activation), (''output_activation'', output_activation),
         (''rng'', rng), (''input_noise'', input_noise), (''hidden_noise'', hidden_noise),
         (''input_dropouts'', input_dropouts), (''hidden_dropouts'', hidden_dropouts),
         (''decode_from'', decode_from)],
      trainers = (case trainers0 of None \<Rightarrow> [(0, [])] | Some ts \<Rightarrow> ts),
      features = features0,
      classes = None,
      exp = None\<rparr>"

text \<open>The constructor called with no argument.\<close>

definition default_classifier :: "'d adapter" where
  "default_classifier =
     TheanetsClassifier [PInt 10] (- 1) (- 1) (PStr ''logistic'') (PStr ''linear'') PNone
       (PInt 0) (PInt 0) (PInt 0) (PInt 0) (PInt 1) None None"

subsection \<open>Serialization\<close>

text \<open>
  \<^verbatim>\<open>__getstate__\<close> and \<^verbatim>\<open>__setstate__\<close>. The temporary file only carries the
  bytes from \<^verbatim>\<open>save\<close> to the dictionary and from the dictionary to \<^verbatim>\<open>load\<close>;
  the file system is taken to work, so that the file exists where the source asserts it.
  \<^verbatim>\<open>__getstate__\<close> does not change the adapter. \<^verbatim>\<open>__setstate__\<close> fills a
  new object: it first constructs a network from the stored sizes, the hidden layers and
  the network options, and then loads the bytes into it. When it raises, the new object
  has no attribute \<^verbatim>\<open>exp\<close> yet; only the exception is given then.
\<close>

definition getstate :: "('c, 'd, 'p) library \<Rightarrow> 'd adapter \<Rightarrow> error + 'd state_dict" where
  "getstate lib self =
     (case (case exp self of
              None \<Rightarrow> Inr None
            | Some e \<Rightarrow> (case save lib e of Inl err \<Rightarrow> Inl err | Inr dump \<Rightarrow> Inr (Some dump))) of
        Inl err \<Rightarrow> Inl err
      | Inr dumped \<Rightarrow>
          Inr \<lparr>layers = layers self, input_layer = input_layer self,
               output_layer = output_layer self, network_params = network_params self,
               trainers = trainers self, features = features self, classes = classes self,
               dumped_exp = dumped\<rparr>)"

definition setstate :: "('c, 'd, 'p) library \<Rightarrow> 'd state_dict \<Rightarrow> error + 'd adapter" where
  "setstate lib dictionary =
     (case (case dumped_exp dictionary of
              None \<Rightarrow> Inr None
            | Some dump \<Rightarrow>
                (case Experiment lib ([PInt (input_layer dictionary)] @ layers dictionary
                                       @ [PInt (output_layer dictionary)])
                        (network_params dictionary) of
                   Inl err \<Rightarrow> Inl err
                 | Inr e \<Rightarrow>
                     (case load lib e dump of Inl err \<Rightarrow> Inl err | Inr e' \<Rightarrow> Inr (Some e')))) of
        Inl err \<Rightarrow> Inl err
      | Inr handle \<Rightarrow>
          Inr \<lparr>layers = layers dictionary, input_layer = input_layer dictionary,
               output_layer = output_layer dictionary, network_params = network_params dictionary,
               trainers = trainers dictionary, features = features dictionary,
               classes = classes dictionary, exp = handle\<rparr>)"

subsection \<open>Parameters\<close>

text \<open>
  \<^verbatim>\<open>hasattr\<close> finds the entries of the instance dictionary and the names defined
  by the class: the methods of the source, what it uses of its base class
  (\<^verbatim>\<open>_get_train_features\<close>, and \<^verbatim>\<open>predict\<close> of the classifier interface), and the
  attributes every Python object has.
\<close>

definition class_attrs :: "string list" where
  "class_attrs =
     [''__init__'', ''__getstate__'', ''__setstate__'', ''set_params'', ''get_params'',
      ''_transform_data'', ''_check_fitted'', ''fit'', ''partial_fit'', ''predict_proba'',
      ''staged_predict_proba'', ''_get_train_features'', ''predict'',
      ''__class__'', ''__delattr__'', ''__dict__'', ''__doc__'', ''__format__'',
      ''__getattribute__'', ''__hash__'', ''__module__'', ''__new__'', ''__reduce__'',
      ''__reduce_ex__'', ''__repr__'', ''__setattr__'', ''__sizeof__'', ''__str__'',
      ''__subclasshook__'', ''__weakref__'']"

definition instance_attrs :: "'d adapter \<Rightarrow> string list" where
  "instance_attrs self =
     [''layers'', ''input_layer'', ''output_layer'', ''network_params'', ''trainers'', ''exp'',
      ''features'']
     @ (if classes self = None then [] else [''classes_''])"

definition hasattr :: "'d adapter \<Rightarrow> string \<Rightarrow> bool" where
  "hasattr self key \<longleftrightarrow> key \<in> set (instance_attrs self) \<or> key \<in> set class_attrs"

text \<open>Reading a value at the documented type of an attribute.\<close>

fun as_int :: "pyval \<Rightarrow> int option" where
  "as_int (PInt n) = Some n"
| "as_int _ = None"

fun as_str :: "pyval \<Rightarrow> string option" where
  "as_str (PStr s) = Some s"
| "as_str _ = None"

fun as_dict :: "pyval \<Rightarrow> kwargs option" where
  "as_dict (PDict d) = Some d"
| "as_dict _ = None"

fun as_list :: "(pyval \<Rightarrow> 'a option) \<Rightarrow> pyval \<Rightarrow> 'a list option" where
  "as_list f (PList vs) = (if list_all (\<lambda>v. f v \<noteq> None) vs then Some (List.map_filter f vs) else None)"
| "as_list f _ = None"

text \<open>
  \<^verbatim>\<open>setattr(self, key, value)\<close> for a key that \<^verbatim>\<open>hasattr\<close> found. The result
  is \<open>None\<close> where the typed state cannot hold the assignment: a value outside the
  attribute's documented type, or a name of the class (which Python would shadow in the
  instance dictionary). A list of dictionaries given by value is a list of objects of
  their own.
\<close>

definition setattr :: "'d adapter \<Rightarrow> string \<Rightarrow> pyval \<Rightarrow> 'd adapter option" where
  "setattr self key v =
     (if key = ''layers'' then
        (case v of PList ls \<Rightarrow> Some (self\<lparr>layers := ls\<rparr>) | _ \<Rightarrow> None)
      else if key = ''input_layer'' then map_option (\<lambda>n. self\<lparr>input_layer := n\<rparr>) (as_int v)
      else if key = ''output_layer'' then map_option (\<lambda>n. self\<lparr>output_layer := n\<rparr>) (as_int v)
      else if key = ''network_params'' then
        map_option (\<lambda>d. self\<lparr>network_params := d\<rparr>) (as_dict v)
      else if key = ''trainers'' then
        map_option (\<lambda>ts. self\<lparr>trainers := zip [0..<length ts] ts\<rparr>) (as_list as_dict v)
      else if key = ''features'' then
        (if v = PNone then Some (self\<lparr>features := None\<rparr>)
         else map_option (\<lambda>fs. self\<lparr>features := Some fs\<rparr>) (as_list as_str v))
      else if key = ''exp'' then
        (if v = PNone then Some (self\<lparr>exp := None\<rparr>) else None)
      else if key = ''classes_'' then
        map_option (\<lambda>cs. self\<lparr>classes := Some cs\<rparr>) (as_list as_int v)
      else None)"

text \<open>
  \<^verbatim>\<open>key.partition('_')\<close>: the text before the first underscore, the separator
  (empty when there is no underscore), and the text after it.
\<close>

definition str_partition :: "string \<Rightarrow> string \<times> string \<times> string" where
  "str_partition key =
     (if CHR ''_'' \<in> set key
      then (takeWhile (\<lambda>c. c \<noteq> CHR ''_'') key, ''_'', tl (dropWhile (\<lambda>c. c \<noteq> CHR ''_'') key))
      else (key, [], []))"

text \<open>
  \<^verbatim>\<open>int(s)\<close> on a string: surrounding whitespace is dropped, one sign is allowed,
  and what remains must be a non-empty run of decimal digits; anything else raises
  \<^verbatim>\<open>ValueError\<close> (\<open>None\<close> here).
\<close>

definition is_space :: "char \<Rightarrow> bool" where
  "is_space c \<longleftrightarrow> c \<in> set [CHR 0x20, CHR 0x09, CHR 0x0A, CHR 0x0B, CHR 0x0C, CHR 0x0D]"

definition strip :: "string \<Rightarrow> string" where
  "strip s = rev (dropWhile is_space (rev (dropWhile is_space s)))"

definition digit_val :: "char \<Rightarrow> int" where
  "digit_val c = int (of_char c) - 48"

definition is_digit :: "char \<Rightarrow> bool" where
  "is_digit c \<longleftrightarrow> c \<in> set ''0123456789''"

definition digits_val :: "string \<Rightarrow> int option" where
  "digits_val s =
     (if s \<noteq> [] \<and> list_all is_digit s
      then Some (foldl (\<lambda>acc c. 10 * acc + digit_val c) 0 s)
      else None)"

definition py_int :: "string \<Rightarrow> int option" where
  "py_int s =
     (case strip s of
        [] \<Rightarrow> None
      | c # r \<Rightarrow>
          if c = CHR ''-'' then map_option uminus (digits_val r)
          else if c = CHR ''+'' then digits_val r
          else digits_val (c # r))"

text \<open>
  \<^verbatim>\<open>xs[i]\<close> for a Python integer: a negative index counts from the end, an index
  out of range raises \<^verbatim>\<open>IndexError\<close> (\<open>None\<close> here).
\<close>

definition py_index :: "'a list \<Rightarrow> int \<Rightarrow> nat option" where
  "py_index xs i =
     (let n = int (length xs); j = (if i < 0 then n + i else i)
      in if 0 \<le> j \<and> j < n then Some (nat j) else None)"

text \<open>
  \<^verbatim>\<open>self.trainers[i][param] = value\<close>: the dictionary object at position \<open>i\<close>
  gets the item, and so every position of the list that holds this object shows it.
\<close>

definition setitem_stage :: "stage list \<Rightarrow> nat \<Rightarrow> string \<Rightarrow> pyval \<Rightarrow> stage list" where
  "setitem_stage ts i param v =
     map (\<lambda>t. if fst t = fst (ts ! i) then (fst t, AList.update param v (snd t)) else t) ts"

text \<open>
  \<^verbatim>\<open>set_params(**params)\<close>: the items of \<open>params\<close> are handled one after the
  other, in the order of the list.
\<close>

fun set_params :: "'d adapter \<Rightarrow> kwargs \<Rightarrow> 'd outcome" where
  "set_params self [] = Inr self"
| "set_params self ((key, v) # params) =
     (if hasattr self key then
        (case setattr self key v of
           None \<Rightarrow> Inl (Untyped key, self)
         | Some self' \<Rightarrow> set_params self' params)
      else if key \<in> fst ` set (network_params self) then
        set_params (self\<lparr>network_params := AList.update key v (network_params self)\<rparr>) params
      else
        (case str_partition key of (trainer_num, sep, param) \<Rightarrow>
           if sep = [] then
             Inl (AttributeError (key @ '' is an invalid parameter for a NN with multiple training''),
                  self)
           else
             (case py_int (drop 7 trainer_num) of
                None \<Rightarrow> Inl (ValueError, self)
              | Some n \<Rightarrow>
                  (case py_index (trainers self) n of
                     None \<Rightarrow> Inl (IndexError, self)
                   | Some i \<Rightarrow>
                       set_params (self\<lparr>trainers := setitem_stage (trainers self) i param v\<rparr>)
                         params))))"



subsection \<open>Input tables and preprocessing\<close>

text \<open>
  A feature table is a list of named columns; \<open>y\<close> is the list of labels, one per
  row.
\<close>

type_synonym 'c frame = "(string \<times> 'c list) list"

text \<open>
  Modelled from the spec: \<^verbatim>\<open>check_inputs\<close> of \<^verbatim>\<open>rep/estimators/utils.py\<close>
  is not among the sources. It checks that X has as many rows as y has labels and that no
  feature name occurs twice, and returns its arguments.
\<close>

definition check_inputs ::
  "'c frame \<Rightarrow> int list \<Rightarrow> pyval \<Rightarrow> error + ('c frame \<times> int list \<times> pyval)" where
  "check_inputs X y sample_weight =
     (if list_all (\<lambda>col. length (snd col) = length y) X \<and> distinct (map fst X)
      then Inr (X, y, sample_weight)
      else Inl ValidationError)"

text \<open>
  Modelled from the spec: \<^verbatim>\<open>_get_train_features\<close> of the base class
  (\<^verbatim>\<open>rep/estimators/interface.py\<close>) is not among the sources. It keeps all columns when
  the feature list is \<^verbatim>\<open>None\<close>, and otherwise the listed columns, in the order of
  the list; a listed column that X does not have raises \<^verbatim>\<open>KeyError\<close>.
\<close>

fun select_columns :: "'c frame \<Rightarrow> string list \<Rightarrow> error + 'c frame" where
  "select_columns X [] = Inr []"
| "select_columns X (f # fs) =
     (case map_of X f of
        None \<Rightarrow> Inl (KeyError f)
      | Some col \<Rightarrow>
          (case select_columns X fs of
             Inl e \<Rightarrow> Inl e
           | Inr cols \<Rightarrow> Inr ((f, col) # cols)))"

definition get_train_features :: "'d adapter \<Rightarrow> 'c frame \<Rightarrow> error + 'c frame" where
  "get_train_features self X =
     (case features self of None \<Rightarrow> Inr X | Some fs \<Rightarrow> select_columns X fs)"

text \<open>
  \<^verbatim>\<open>_transform_data\<close>: the selected columns go through the imputer and the scaler.
  The result is the array as a list of columns, and \<open>shape1\<close> is its
  \<^verbatim>\<open>shape[1]\<close>.
\<close>

definition transform_data ::
  "('c, 'd, 'p) library \<Rightarrow> 'd adapter \<Rightarrow> 'c frame \<Rightarrow> error + 'd list list" where
  "transform_data lib self data =
     (case get_train_features self data of
        Inl e \<Rightarrow> Inl e
      | Inr cols \<Rightarrow>
          (case fit_transform lib (map snd cols) of
             Inl name \<Rightarrow> Inl (External name)
           | Inr array \<Rightarrow> Inr array))"

definition shape1 :: "'d list list \<Rightarrow> int" where
  "shape1 X = int (length X)"

text \<open>\<^verbatim>\<open>numpy.unique\<close>: the distinct values, sorted.\<close>

definition unique :: "int list \<Rightarrow> int list" where
  "unique y = sort (remdups y)"

subsection \<open>Training and prediction\<close>

definition check_fitted :: "'d adapter \<Rightarrow> error + unit" where
  "check_fitted self = (if exp self \<noteq> None then Inr () else Inl AssertionError)"

text \<open>
  The identity of a dictionary object that is new to the schedule: the keyword
  dictionary \<^verbatim>\<open>trainer\<close> of a call is an object of its own.
\<close>

definition fresh_id :: "stage list \<Rightarrow> nat" where
  "fresh_id ts = fold (\<lambda>t m. max (Suc (fst t)) m) ts 0"

text \<open>
  \<^verbatim>\<open>partial_fit(X, y, sample_weight, new_trainer, **trainer)\<close>. The statements are
  those of the source, in its order; \<^verbatim>\<open>print(layers)\<close> writes to the standard
  output and is left out.
\<close>

definition partial_fit ::
  "('c, 'd, 'p) library \<Rightarrow> 'd adapter \<Rightarrow> 'c frame \<Rightarrow> int list \<Rightarrow> pyval \<Rightarrow> bool \<Rightarrow> kwargs
     \<Rightarrow> 'd outcome" where
  "partial_fit lib self X y sample_weight new_trainer trainer =
     (if sample_weight \<noteq> PNone then Inl (NotImplementedError, self)
      else
        (case check_inputs X y sample_weight of
           Inl e \<Rightarrow> Inl (e, self)
         | Inr (X1, y1, sample_weight1) \<Rightarrow>
             (case transform_data lib self X1 of
                Inl e \<Rightarrow> Inl (e, self)
              | Inr X2 \<Rightarrow>
                  let self1 = self\<lparr>classes := Some (unique y1)\<rparr>
                  in (case (case exp self1 of
                              Some e \<Rightarrow> Inr (self1, e)
                            | None \<Rightarrow>
                                let s1 = (if input_layer self1 = - 1
                                          then self1\<lparr>input_layer := shape1 X2\<rparr> else self1);
                                    s2 = (if output_layer s1 = - 1
                                          then s1\<lparr>output_layer := int (length (unique y1))\<rparr>
                                          else s1);
                                    layers1 = [PInt (input_layer s2)] @ layers s2
                                              @ [PInt (output_layer s2)]
                                in (case Experiment lib layers1 (network_params s2) of
                                      Inl e \<Rightarrow> Inl (e, s2)
                                    | Inr e \<Rightarrow> Inr (s2\<lparr>exp := Some e\<rparr>, e))) of
                        Inl failure \<Rightarrow> Inl failure
                      | Inr (self2, e) \<Rightarrow>
                          let self3 =
                                (if new_trainer
                                 then self2\<lparr>trainers :=
                                              trainers self2 @ [(fresh_id (trainers self2), trainer)]\<rparr>
                                 else self2)
                          in (case train lib e (astype_float32 lib X2, astype_int32 y1) trainer of
                                Inl err \<Rightarrow> Inl (err, self3)
                              | Inr e' \<Rightarrow> Inr (self3\<lparr>exp := Some e'\<rparr>))))))"

text \<open>
  The call \<^verbatim>\<open>self.partial_fit(X, y, new_trainer=False, **trainer)\<close> of
  \<^verbatim>\<open>fit\<close>. Python binds the entries of \<open>trainer\<close> to the parameters of
  \<^verbatim>\<open>partial_fit\<close> by name: an entry named like an argument that the call already
  gives raises \<^verbatim>\<open>TypeError\<close>, an entry named \<^verbatim>\<open>sample_weight\<close> becomes that
  parameter, and the other entries are the stage's parameters.
\<close>

definition call_partial_fit ::
  "('c, 'd, 'p) library \<Rightarrow> 'd adapter \<Rightarrow> 'c frame \<Rightarrow> int list \<Rightarrow> kwargs \<Rightarrow> 'd outcome" where
  "call_partial_fit lib self X y trainer =
     (if list_ex (\<lambda>k. k \<in> set [''self'', ''X'', ''y'', ''new_trainer'']) (map fst trainer)
      then Inl (TypeError, self)
      else partial_fit lib self X y
             (case map_of trainer ''sample_weight'' of None \<Rightarrow> PNone | Some w \<Rightarrow> w)
             False
             (AList.delete ''sample_weight'' trainer))"

fun fit_stages ::
  "('c, 'd, 'p) library \<Rightarrow> 'd adapter \<Rightarrow> 'c frame \<Rightarrow> int list \<Rightarrow> kwargs list \<Rightarrow> 'd outcome" where
  "fit_stages lib self X y [] = Inr self"
| "fit_stages lib self X y (trainer # rest) =
     (case call_partial_fit lib self X y trainer of
        Inl failure \<Rightarrow> Inl failure
      | Inr self' \<Rightarrow> fit_stages lib self' X y rest)"

text \<open>
  \<^verbatim>\<open>fit(X, y, sample_weight)\<close>. The loop runs over the dictionaries of the schedule
  as they are when the loop starts; no stage call changes the schedule. The parameter
  \<open>sample_weight\<close> does not occur in the body, as in the source.
\<close>

definition fit ::
  "('c, 'd, 'p) library \<Rightarrow> 'd adapter \<Rightarrow> 'c frame \<Rightarrow> int list \<Rightarrow> pyval \<Rightarrow> 'd outcome" where
  "fit lib self X y sample_weight =
     fit_stages lib (self\<lparr>exp := None\<rparr>) X y (map snd (trainers self))"

definition predict_proba ::
  "('c, 'd, 'p) library \<Rightarrow> 'd adapter \<Rightarrow> 'c frame \<Rightarrow> error + 'p" where
  "predict_proba lib self X =
     (case check_fitted self of
        Inl e \<Rightarrow> Inl e
      | Inr _ \<Rightarrow>
          (case transform_data lib self X of
             Inl e \<Rightarrow> Inl e
           | Inr X1 \<Rightarrow>
               (case exp self of
                  None \<Rightarrow> Inl (AttributeError ''NoneType object has no attribute network'')
                | Some e \<Rightarrow> predict lib e (astype_float32 lib X1))))"

subsection \<open>Keys of trainer stages\<close>




text \<open>
  The names of the parameters of \<^verbatim>\<open>partial_fit\<close>. A stage none of whose entries
  has one of these names is passed to \<^verbatim>\<open>partial_fit\<close> as it is.
\<close>

definition partial_fit_params :: "string list" where
  "partial_fit_params = [''self'', ''X'', ''y'', ''sample_weight'', ''new_trainer'']"

subsection \<open>Concrete inputs\<close>

text \<open>
  An instance of the libraries, for the concrete inputs below. A cell of a table is a
  rational number or missing (\<open>None\<close>).
  \<^item> \<^verbatim>\<open>Imputer()\<close> with its default arguments puts the mean of the observed cells
    of a column into its missing cells and discards a column with no observed cell;
  \<^item> \<^verbatim>\<open>MinMaxScaler()\<close> maps every column linearly onto the range from 0 to 1, a
    constant column to 0;
  \<^item> both refuse an array with no row or with no column;
  \<^item> the arrays of the concrete inputs hold only 0, 1/2 and 1, which
    \<^verbatim>\<open>float32\<close> holds exactly;
  \<^item> the constructor of the network allocates an array per layer, which numpy refuses
    for a negative size;
  \<^item> training and saving return, and loading gives the network that was saved;
  \<^item> a prediction is represented by the layer sequence of the network that makes it.
\<close>

definition imputer_column :: "rat option list \<Rightarrow> rat list option" where
  "imputer_column col =
     (let observed = List.map_filter (\<lambda>c. c) col
      in if observed = [] then None
         else Some (map (\<lambda>c. case c of
                                 None \<Rightarrow> sum_list observed / of_nat (length observed)
                               | Some v \<Rightarrow> v) col))"

definition min_max_column :: "rat list \<Rightarrow> rat list" where
  "min_max_column col =
     (let lo = fold min col (hd col);
          hi = fold max col (hd col);
          range = (if hi = lo then 1 else hi - lo)
      in map (\<lambda>v. (v - lo) / range) col)"

definition example_fit_transform :: "rat option list list \<Rightarrow> string + rat list list" where
  "example_fit_transform cols =
     (if cols = [] \<or> list_ex (\<lambda>col. col = []) cols then Inl ''ValueError''
      else
        (let kept = List.map_filter imputer_column cols
         in if kept = [] then Inl ''ValueError'' else Inr (map min_max_column kept)))"

definition example_library :: "(rat option, rat, pyval list) library" where
  "example_library =
     \<lparr>fit_transform = example_fit_transform,
      astype_float32 = (\<lambda>X. X),
      Experiment_raises =
        (\<lambda>ls opts. if list_ex (\<lambda>l. case l of PInt n \<Rightarrow> n < 0 | _ \<Rightarrow> False) ls
                    then Some ''ValueError'' else None),
      train_raises = (\<lambda>e data trainer. None),
      save_raises = (\<lambda>e. None),
      load_gives = (\<lambda>e dump. case dump of Blob n \<Rightarrow> Inr n),
      predict_gives = (\<lambda>e X. Inr (net_layers e))\<rparr>"

text \<open>The same libraries, but every training call is interrupted.\<close>

definition interrupted_library :: "(rat option, rat, pyval list) library" where
  "interrupted_library = example_library\<lparr>train_raises := (\<lambda>e data trainer. Some ''KeyboardInterrupt'')\<rparr>"

text \<open>
  A table of one column and three rows with three distinct labels, and a table of one
  column and two rows with two distinct labels.
\<close>

definition example_X3 :: "rat option frame" where
  "example_X3 = [(''a'', [Some 0, Some 1, Some 2])]"

definition example_y3 :: "int list" where
  "example_y3 = [0, 1, 2]"

definition example_X2 :: "rat option frame" where
  "example_X2 = [(''a'', [Some 0, Some 1])]"

definition example_y2 :: "int list" where
  "example_y2 = [0, 1]"

text \<open>A table of two columns and three rows whose second column has no observed cell.\<close>

definition example_X_missing :: "rat option frame" where
  "example_X_missing = [(''a'', [Some 0, Some 1, Some 2]), (''b'', [None, None, None])]"

text \<open>The newly constructed adapter after \<^verbatim>\<open>fit(example_X3, example_y3)\<close>.\<close>

definition fitted_example :: "rat adapter" where
  "fitted_example =
     default_classifier
       \<lparr>input_layer := 1, output_layer := 3, classes := Some [0, 1, 2],
        exp := Some \<lparr>net_layers = [PInt 1, PInt 10, PInt 3],
                     net_options = network_params (default_classifier :: rat adapter),
                     net_trained = [([[0, 1 / 2, 1]], [0, 1, 2], [])]\<rparr>\<rparr>"

text \<open>
  A table of four columns and a hundred rows, with a hundred labels of which three are
  distinct, and an adapter constructed with \<^verbatim>\<open>layers=[5]\<close>.
\<close>

definition example_X100 :: "rat option frame" where
  "example_X100 =
     map (\<lambda>name. (name, replicate 50 (Some 0) @ replicate 50 (Some 1)))
       [''f0'', ''f1'', ''f2'', ''f3'']"

definition example_y100 :: "int list" where
  "example_y100 = replicate 98 0 @ [1, 2]"

definition example_classifier5 :: "rat adapter" where
  "example_classifier5 =
     TheanetsClassifier [PInt 5] (- 1) (- 1) (PStr ''logistic'') (PStr ''linear'') PNone
       (PInt 0) (PInt 0) (PInt 0) (PInt 0) (PInt 1) None None"


section \<open>Properties\<close>

subsection \<open>Parsing the key of a trainer stage\<close>











lemma is_digit_not_underscore: "is_digit c \<Longrightarrow> c \<noteq> CHR ''_''"
  by (auto simp: is_digit_def)








lemma setitem_stage_length: "length (setitem_stage ts n param v) = length ts"
  by (simp add: setitem_stage_def)



subsection \<open>Setting parameters\<close>




text \<open>
  C3. \<^verbatim>\<open>set_params(bogus_key=1)\<close> on a newly constructed adapter: the key is no
  attribute, no network option and has an underscore, so the text after the seventh
  character of \<^verbatim>\<open>bogus\<close>, which is empty, goes to \<^verbatim>\<open>int\<close>, and the call ends
  in \<^verbatim>\<open>ValueError\<close>, not in the \<^verbatim>\<open>AttributeError\<close> that names the key; the
  adapter is unchanged. A key such as \<^verbatim>\<open>abcdefg0_rate\<close> raises nothing and sets
  \<^verbatim>\<open>rate\<close> in stage 0.
\<close>

theorem set_params_bogus_key:
  "set_params (default_classifier :: int adapter) [(''bogus_key'', PInt 1)] =
     Inl (ValueError, default_classifier) \<and>
   set_params (default_classifier :: int adapter) [(''abcdefg0_rate'', PInt 1)] =
     Inr (default_classifier\<lparr>trainers := [(0, [(''rate'', PInt 1)])]\<rparr>)"
  by (simp add: default_classifier_def TheanetsClassifier_def hasattr_def instance_attrs_def
        class_attrs_def str_partition_def py_int_def strip_def is_space_def digits_val_def
        is_digit_def digit_val_def py_index_def setitem_stage_def)

subsection \<open>One training stage\<close>

lemma check_inputs_Inr: "check_inputs X y w = Inr r \<Longrightarrow> r = (X, y, w)"
  by (auto simp: check_inputs_def split: if_splits)

lemma transform_data_features:
  "features a = features b \<Longrightarrow> transform_data lib a X = transform_data lib b X"
  by (simp add: transform_data_def get_train_features_def)

lemma partial_fit_sample_weight:
  "sample_weight \<noteq> PNone \<Longrightarrow>
   partial_fit lib self X y sample_weight new_trainer trainer = Inl (NotImplementedError, self)"
  by (simp add: partial_fit_def)

lemma partial_fit_check_failed:
  "check_inputs X y PNone = Inl err \<Longrightarrow>
   partial_fit lib self X y PNone new_trainer trainer = Inl (err, self)"
  by (simp add: partial_fit_def)

lemma partial_fit_transform_failed:
  "check_inputs X y PNone = Inr (X, y, PNone) \<Longrightarrow> transform_data lib self X = Inl err \<Longrightarrow>
   partial_fit lib self X y PNone new_trainer trainer = Inl (err, self)"
  by (simp add: partial_fit_def)

lemma partial_fit_handle:
  assumes "check_inputs X y PNone = Inr (X, y, PNone)"
    and "transform_data lib self X = Inr X2"
    and "exp self = Some e"
  shows "partial_fit lib self X y PNone new_trainer trainer =
     (case train_raises lib e (astype_float32 lib X2, astype_int32 y) trainer of
        Some name \<Rightarrow>
          Inl (External name,
               self\<lparr>classes := Some (unique y),
                    trainers := (if new_trainer
                                 then trainers self @ [(fresh_id (trainers self), trainer)]
                                 else trainers self)\<rparr>)
      | None \<Rightarrow>
          Inr (self\<lparr>classes := Some (unique y),
                   trainers := (if new_trainer
                                then trainers self @ [(fresh_id (trainers self), trainer)]
                                else trainers self),
                   exp := Some (e\<lparr>net_trained := net_trained e @
                                   [(astype_float32 lib X2, astype_int32 y, trainer)]\<rparr>)\<rparr>))"
  using assms by (simp add: partial_fit_def Let_def train_def split: option.splits)

lemma partial_fit_fresh:
  assumes "check_inputs X y PNone = Inr (X, y, PNone)"
    and "transform_data lib self X = Inr X2"
    and "exp self = None"
    and "il = (if input_layer self = - 1 then shape1 X2 else input_layer self)"
    and "ol = (if output_layer self = - 1 then int (length (unique y)) else output_layer self)"
    and "e0 = \<lparr>net_layers = [PInt il] @ layers self @ [PInt ol],
               net_options = network_params self, net_trained = []\<rparr>"
  shows "partial_fit lib self X y PNone new_trainer trainer =
     (case Experiment_raises lib ([PInt il] @ layers self @ [PInt ol]) (network_params self) of
        Some name \<Rightarrow>
          Inl (External name,
               self\<lparr>classes := Some (unique y), input_layer := il, output_layer := ol\<rparr>)
      | None \<Rightarrow>
          (case train_raises lib e0 (astype_float32 lib X2, astype_int32 y) trainer of
             Some name \<Rightarrow>
               Inl (External name,
                    self\<lparr>classes := Some (unique y), input_layer := il, output_layer := ol,
                         trainers := (if new_trainer
                                      then trainers self @ [(fresh_id (trainers self), trainer)]
                                      else trainers self),
                         exp := Some e0\<rparr>)
           | None \<Rightarrow>
               Inr (self\<lparr>classes := Some (unique y), input_layer := il, output_layer := ol,
                        trainers := (if new_trainer
                                     then trainers self @ [(fresh_id (trainers self), trainer)]
                                     else trainers self),
                        exp := Some (e0\<lparr>net_trained :=
                                          [(astype_float32 lib X2, astype_int32 y, trainer)]\<rparr>)\<rparr>)))"
  using assms(1-3) unfolding assms(4-6)
  by (simp add: partial_fit_def Let_def train_def Experiment_def split: option.splits)

lemma partial_fit_InrD:
  assumes "partial_fit lib self X y sample_weight new_trainer trainer = Inr self'"
  shows "sample_weight = PNone \<and> check_inputs X y PNone = Inr (X, y, PNone) \<and>
         (\<exists>X2. transform_data lib self X = Inr X2)"
proof -
  have sw: "sample_weight = PNone"
    using assms by (auto simp: partial_fit_def split: if_splits)
  obtain r where r: "check_inputs X y PNone = Inr r"
    using assms sw by (cases "check_inputs X y PNone") (simp_all add: partial_fit_check_failed)
  then have r': "check_inputs X y PNone = Inr (X, y, PNone)" using check_inputs_Inr by blast
  have "\<exists>X2. transform_data lib self X = Inr X2"
  proof (cases "transform_data lib self X")
    case (Inl err)
    from partial_fit_transform_failed [OF r' Inl, of new_trainer trainer] assms sw
    show ?thesis by simp
  next
    case (Inr X2)
    then show ?thesis by blast
  qed
  with sw r' show ?thesis by simp
qed

text \<open>What a stage call leaves as it is, whether it returns or raises.\<close>

lemma partial_fit_frame:
  assumes "partial_fit lib self X y sample_weight False trainer = r"
    and "r = Inr s \<or> r = Inl (err, s)"
  shows "trainers s = trainers self \<and> layers s = layers self \<and>
         network_params s = network_params self \<and> features s = features self"
proof (cases "sample_weight = PNone")
  case False
  then show ?thesis using assms by (auto simp: partial_fit_sample_weight)
next
  case sw: True
  show ?thesis
  proof (cases "check_inputs X y PNone")
    case (Inl e)
    then show ?thesis using assms sw by (auto simp: partial_fit_check_failed)
  next
    case (Inr c)
    then have c: "check_inputs X y PNone = Inr (X, y, PNone)" using check_inputs_Inr by blast
    show ?thesis
    proof (cases "transform_data lib self X")
      case (Inl e)
      then show ?thesis using assms sw c by (auto simp: partial_fit_transform_failed)
    next
      case (Inr X2)
      show ?thesis
      proof (cases "exp self")
        case None
        show ?thesis
          using assms sw partial_fit_fresh [OF c Inr None refl refl refl, of False trainer]
          by (auto split: option.splits)
      next
        case (Some e)
        show ?thesis
          using assms sw partial_fit_handle [OF c Inr Some, of False trainer]
          by (auto split: option.splits)
      qed
    qed
  qed
qed

lemma delete_absent: "k \<notin> fst ` set al \<Longrightarrow> AList.delete k al = al"
  by (induction al) auto

lemma call_partial_fit_plain:
  assumes "fst ` set trainer \<inter> set partial_fit_params = {}"
  shows "call_partial_fit lib self X y trainer = partial_fit lib self X y PNone False trainer"
proof -
  have d: "\<And>k. k \<in> set partial_fit_params \<Longrightarrow> k \<notin> fst ` set trainer"
    using assms by blast
  have sw: "''sample_weight'' \<notin> fst ` set trainer"
    by (rule d) (simp add: partial_fit_params_def)
  have m: "map_of trainer ''sample_weight'' = None"
    using sw by (simp add: map_of_eq_None_iff)
  have n: "\<And>k. k \<in> set [''self'', ''X'', ''y'', ''new_trainer''] \<Longrightarrow> k \<notin> set (map fst trainer)"
  proof -
    fix k :: string
    assume "k \<in> set [''self'', ''X'', ''y'', ''new_trainer'']"
    then have "k \<in> set partial_fit_params" unfolding partial_fit_params_def by auto
    from d [OF this] show "k \<notin> set (map fst trainer)" by simp
  qed
  have l: "\<not> list_ex (\<lambda>k. k \<in> set [''self'', ''X'', ''y'', ''new_trainer'']) (map fst trainer)"
    unfolding list_ex_iff using n by blast
  show ?thesis
    unfolding call_partial_fit_def using l m delete_absent [OF sw] by (simp only: if_False option.case)
qed

lemma call_partial_fit_InrD:
  assumes "call_partial_fit lib self X y trainer = Inr self'"
  shows "partial_fit lib self X y PNone False (AList.delete ''sample_weight'' trainer) = Inr self'"
proof -
  have pf: "partial_fit lib self X y
             (case map_of trainer ''sample_weight'' of None \<Rightarrow> PNone | Some w \<Rightarrow> w) False
             (AList.delete ''sample_weight'' trainer) = Inr self'"
    using assms by (auto simp: call_partial_fit_def split: if_splits)
  from partial_fit_InrD [OF pf]
  have "(case map_of trainer ''sample_weight'' of None \<Rightarrow> PNone | Some w \<Rightarrow> w) = PNone" by simp
  with pf show ?thesis by simp
qed

lemma call_partial_fit_frame:
  assumes "call_partial_fit lib self X y trainer = r"
    and "r = Inr s \<or> r = Inl (err, s)"
  shows "trainers s = trainers self \<and> layers s = layers self \<and>
         network_params s = network_params self \<and> features s = features self"
proof (cases "list_ex (\<lambda>k. k \<in> set [''self'', ''X'', ''y'', ''new_trainer'']) (map fst trainer)")
  case True
  then have "call_partial_fit lib self X y trainer = Inl (TypeError, self)"
    unfolding call_partial_fit_def by (simp only: if_True)
  then show ?thesis using assms by auto
next
  case False
  then have "call_partial_fit lib self X y trainer =
      partial_fit lib self X y
             (case map_of trainer ''sample_weight'' of None \<Rightarrow> PNone | Some w \<Rightarrow> w) False
             (AList.delete ''sample_weight'' trainer)"
    unfolding call_partial_fit_def by (simp only: if_False)
  then show ?thesis using assms partial_fit_frame by metis
qed

lemma fit_stages_frame:
  assumes "fit_stages lib self X y ts = r"
    and "r = Inr s \<or> r = Inl (err, s)"
  shows "trainers s = trainers self \<and> layers s = layers self \<and>
         network_params s = network_params self \<and> features s = features self"
  using assms
proof (induction ts arbitrary: self)
  case Nil
  then show ?case by auto
next
  case (Cons t ts)
  show ?case
  proof (cases "call_partial_fit lib self X y t")
    case (Inl f)
    obtain err1 s1 where f: "f = (err1, s1)" by (cases f)
    have "r = Inl (err1, s1)" using Cons.prems(1) Inl f by simp
    then have "s = s1" "r = Inl (err, s)" using Cons.prems(2) by auto
    then show ?thesis
      using call_partial_fit_frame [OF Inl, of s1 err1] f by simp
  next
    case (Inr s1)
    have fr: "trainers s1 = trainers self \<and> layers s1 = layers self \<and>
         network_params s1 = network_params self \<and> features s1 = features self"
      using call_partial_fit_frame [OF Inr, of s1] by simp
    have "fit_stages lib s1 X y ts = r" using Cons.prems(1) Inr by simp
    from Cons.IH [OF this Cons.prems(2)] fr show ?thesis by simp
  qed
qed

subsection \<open>A full fit\<close>

lemma call_partial_fit_Inr_handle:
  assumes "call_partial_fit lib self X y t = Inr s1" and "exp self = Some e"
  shows "\<exists>X2. transform_data lib self X = Inr X2 \<and>
           s1 = self\<lparr>classes := Some (unique y),
                     exp := Some (e\<lparr>net_trained := net_trained e @
                                   [(astype_float32 lib X2, astype_int32 y,
                                     AList.delete ''sample_weight'' t)]\<rparr>)\<rparr>"
proof -
  have pf: "partial_fit lib self X y PNone False (AList.delete ''sample_weight'' t) = Inr s1"
    using assms(1) by (rule call_partial_fit_InrD)
  from partial_fit_InrD [OF pf] obtain X2
    where c: "check_inputs X y PNone = Inr (X, y, PNone)"
      and tr: "transform_data lib self X = Inr X2" by blast
  have "s1 = self\<lparr>classes := Some (unique y),
                     exp := Some (e\<lparr>net_trained := net_trained e @
                                   [(astype_float32 lib X2, astype_int32 y,
                                     AList.delete ''sample_weight'' t)]\<rparr>)\<rparr>"
    using pf partial_fit_handle [OF c tr assms(2), of False "AList.delete ''sample_weight'' t"]
    by (simp split: option.splits)
  with tr show ?thesis by blast
qed

lemma call_partial_fit_Inr_fresh:
  assumes "call_partial_fit lib self X y t = Inr s1" and "exp self = None"
  shows "\<exists>X2. transform_data lib self X = Inr X2 \<and>
           s1 = self\<lparr>classes := Some (unique y),
                     input_layer := (if input_layer self = - 1 then shape1 X2 else input_layer self),
                     output_layer := (if output_layer self = - 1 then int (length (unique y))
                                      else output_layer self),
                     exp := Some \<lparr>net_layers =
                                    [PInt (if input_layer self = - 1 then shape1 X2
                                           else input_layer self)]
                                    @ layers self @
                                    [PInt (if output_layer self = - 1 then int (length (unique y))
                                           else output_layer self)],
                                  net_options = network_params self,
                                  net_trained = [(astype_float32 lib X2, astype_int32 y,
                                                  AList.delete ''sample_weight'' t)]\<rparr>\<rparr>"
proof -
  have pf: "partial_fit lib self X y PNone False (AList.delete ''sample_weight'' t) = Inr s1"
    using assms(1) by (rule call_partial_fit_InrD)
  from partial_fit_InrD [OF pf] obtain X2
    where c: "check_inputs X y PNone = Inr (X, y, PNone)"
      and tr: "transform_data lib self X = Inr X2" by blast
  define il where "il = (if input_layer self = - 1 then shape1 X2 else input_layer self)"
  define ol where "ol = (if output_layer self = - 1 then int (length (unique y))
                         else output_layer self)"
  have "s1 = self\<lparr>classes := Some (unique y), input_layer := il, output_layer := ol,
                   exp := Some \<lparr>net_layers = [PInt il] @ layers self @ [PInt ol],
                                net_options = network_params self,
                                net_trained = [(astype_float32 lib X2, astype_int32 y,
                                                  AList.delete ''sample_weight'' t)]\<rparr>\<rparr>"
    using pf partial_fit_fresh [OF c tr assms(2) il_def ol_def refl, of False
                                  "AList.delete ''sample_weight'' t"]
    by (simp split: option.splits)
  then show ?thesis unfolding il_def ol_def using tr by blast
qed

lemma fit_stages_Inr_handle:
  assumes "fit_stages lib self X y ts = Inr self'"
    and "exp self = Some e"
    and "transform_data lib self X = Inr X2"
  shows "self' =
         (if ts = [] then self
          else self\<lparr>classes := Some (unique y),
                    exp := Some (e\<lparr>net_trained := net_trained e @
                                  map (\<lambda>t. (astype_float32 lib X2, astype_int32 y,
                                            AList.delete ''sample_weight'' t)) ts\<rparr>)\<rparr>)"
  using assms
proof (induction ts arbitrary: self e)
  case Nil
  then show ?case by simp
next
  case (Cons t ts)
  obtain s1 where step: "call_partial_fit lib self X y t = Inr s1"
    and rest: "fit_stages lib s1 X y ts = Inr self'"
    using Cons.prems(1) by (cases "call_partial_fit lib self X y t") auto
  let ?e1 = "e\<lparr>net_trained := net_trained e @
                 [(astype_float32 lib X2, astype_int32 y, AList.delete ''sample_weight'' t)]\<rparr>"
  have s1: "s1 = self\<lparr>classes := Some (unique y), exp := Some ?e1\<rparr>"
    using call_partial_fit_Inr_handle [OF step Cons.prems(2)] Cons.prems(3) by auto
  have tr: "transform_data lib s1 X = Inr X2"
    using Cons.prems(3) transform_data_features [of s1 self lib X] s1 by simp
  have e1: "exp s1 = Some ?e1" using s1 by simp
  show ?case
    using Cons.IH [OF rest e1 tr] s1 by simp
qed

lemma fit_stages_Inr_fresh:
  assumes "fit_stages lib self X y (t0 # ts) = Inr self'" and "exp self = None"
  shows "\<exists>X2. transform_data lib self X = Inr X2 \<and>
           self' = self\<lparr>classes := Some (unique y),
                     input_layer := (if input_layer self = - 1 then shape1 X2 else input_layer self),
                     output_layer := (if output_layer self = - 1 then int (length (unique y))
                                      else output_layer self),
                     exp := Some \<lparr>net_layers =
                                    [PInt (if input_layer self = - 1 then shape1 X2
                                           else input_layer self)]
                                    @ layers self @
                                    [PInt (if output_layer self = - 1 then int (length (unique y))
                                           else output_layer self)],
                                  net_options = network_params self,
                                  net_trained = map (\<lambda>t. (astype_float32 lib X2, astype_int32 y,
                                              AList.delete ''sample_weight'' t)) (t0 # ts)\<rparr>\<rparr>"
proof -
  obtain s1 where step: "call_partial_fit lib self X y t0 = Inr s1"
    and rest: "fit_stages lib s1 X y ts = Inr self'"
    using assms(1) by (cases "call_partial_fit lib self X y t0") auto
  from call_partial_fit_Inr_fresh [OF step assms(2)] obtain X2
    where tr: "transform_data lib self X = Inr X2"
      and s1': "s1 = self\<lparr>classes := Some (unique y),
                     input_layer := (if input_layer self = - 1 then shape1 X2 else input_layer self),
                     output_layer := (if output_layer self = - 1 then int (length (unique y))
                                      else output_layer self),
                     exp := Some \<lparr>net_layers =
                                    [PInt (if input_layer self = - 1 then shape1 X2
                                           else input_layer self)]
                                    @ layers self @
                                    [PInt (if output_layer self = - 1 then int (length (unique y))
                                           else output_layer self)],
                                  net_options = network_params self,
                                  net_trained = [(astype_float32 lib X2, astype_int32 y,
                                                  AList.delete ''sample_weight'' t0)]\<rparr>\<rparr>"
    by blast
  define il where "il = (if input_layer self = - 1 then shape1 X2 else input_layer self)"
  define ol where "ol = (if output_layer self = - 1 then int (length (unique y))
                         else output_layer self)"
  have s1: "s1 = self\<lparr>classes := Some (unique y), input_layer := il, output_layer := ol,
                   exp := Some \<lparr>net_layers = [PInt il] @ layers self @ [PInt ol],
                                net_options = network_params self,
                                net_trained = [(astype_float32 lib X2, astype_int32 y,
                                                  AList.delete ''sample_weight'' t0)]\<rparr>\<rparr>"
    using s1' unfolding il_def ol_def .
  have tr1: "transform_data lib s1 X = Inr X2"
    using tr transform_data_features [of s1 self lib X] s1 by simp
  have e1: "exp s1 = Some \<lparr>net_layers = [PInt il] @ layers self @ [PInt ol],
                                net_options = network_params self,
                                net_trained = [(astype_float32 lib X2, astype_int32 y,
                                                  AList.delete ''sample_weight'' t0)]\<rparr>"
    using s1 by simp
  have "self' = self\<lparr>classes := Some (unique y), input_layer := il, output_layer := ol,
                   exp := Some \<lparr>net_layers = [PInt il] @ layers self @ [PInt ol],
                                net_options = network_params self,
                                net_trained = map (\<lambda>t. (astype_float32 lib X2, astype_int32 y,
                                              AList.delete ''sample_weight'' t)) (t0 # ts)\<rparr>\<rparr>"
    using fit_stages_Inr_handle [OF rest e1 tr1] s1 by (cases "ts = []") simp_all
  then show ?thesis unfolding il_def ol_def using tr by blast
qed

lemma fit_stages_returns:
  assumes "check_inputs X y PNone = Inr (X, y, PNone)"
    and "transform_data lib self X = Inr X2"
    and "\<forall>t\<in>set ts. fst ` set t \<inter> set partial_fit_params = {}"
    and "exp self = None \<longrightarrow>
         Experiment_raises lib
           ([PInt (if input_layer self = - 1 then shape1 X2 else input_layer self)] @ layers self @
            [PInt (if output_layer self = - 1 then int (length (unique y)) else output_layer self)])
           (network_params self) = None"
    and "\<forall>e t. train_raises lib e (astype_float32 lib X2, astype_int32 y) t = None"
  shows "\<exists>self'. fit_stages lib self X y ts = Inr self'"
  using assms(2-4)
proof (induction ts arbitrary: self)
  case Nil
  then show ?case by simp
next
  case (Cons t ts)
  have plain: "fst ` set t \<inter> set partial_fit_params = {}" using Cons.prems(2) by simp
  have call: "call_partial_fit lib self X y t = partial_fit lib self X y PNone False t"
    by (rule call_partial_fit_plain [OF plain])
  have "\<exists>s1. call_partial_fit lib self X y t = Inr s1 \<and> exp s1 \<noteq> None \<and> features s1 = features self"
  proof (cases "exp self")
    case None
    show ?thesis
      unfolding call
      using partial_fit_fresh [OF assms(1) Cons.prems(1) None refl refl refl, of False t]
        Cons.prems(3) None assms(5)
      by simp
  next
    case (Some e)
    show ?thesis
      unfolding call
      using partial_fit_handle [OF assms(1) Cons.prems(1) Some, of False t] assms(5)
      by simp
  qed
  then obtain s1 where step: "call_partial_fit lib self X y t = Inr s1"
    and e1: "exp s1 \<noteq> None" and f1: "features s1 = features self" by blast
  have tr1: "transform_data lib s1 X = Inr X2"
    using Cons.prems(1) transform_data_features [OF f1, of lib X] by simp
  have rest: "\<forall>t\<in>set ts. fst ` set t \<inter> set partial_fit_params = {}"
    using Cons.prems(2) by simp
  have "\<exists>self'. fit_stages lib s1 X y ts = Inr self'"
    by (rule Cons.IH [OF tr1 rest]) (simp add: e1)
  then show ?case using step by simp
qed

subsection \<open>The concrete inputs\<close>

lemma check_example_2:
  "check_inputs example_X2 example_y2 w = Inr (example_X2, example_y2, w)"
  by (simp add: check_inputs_def example_X2_def example_y2_def)

lemma check_example_3:
  "check_inputs example_X3 example_y3 w = Inr (example_X3, example_y3, w)"
  by (simp add: check_inputs_def example_X3_def example_y3_def)

lemma transform_example_2:
  "features self = None \<Longrightarrow> transform_data example_library self example_X2 = Inr [[0, 1]]"
  by (simp add: transform_data_def get_train_features_def example_X2_def example_library_def
        example_fit_transform_def imputer_column_def min_max_column_def List.map_filter_def)

lemma transform_example_3:
  "features self = None \<Longrightarrow> transform_data example_library self example_X3 = Inr [[0, 1 / 2, 1]]"
  by (simp add: transform_data_def get_train_features_def example_X3_def example_library_def
        example_fit_transform_def imputer_column_def min_max_column_def List.map_filter_def)

lemma transform_example_missing:
  "features self = None \<Longrightarrow>
   transform_data example_library self example_X_missing = Inr [[0, 1 / 2, 1]]"
  by (simp add: transform_data_def get_train_features_def example_X_missing_def
        example_library_def example_fit_transform_def imputer_column_def min_max_column_def
        List.map_filter_def)

lemma unique_example_y2: "unique example_y2 = [0, 1]"
  by (simp add: unique_def example_y2_def)

lemma unique_example_y3: "unique example_y3 = [0, 1, 2]"
  by (simp add: unique_def example_y3_def)

lemma astype_int32_example_y2: "astype_int32 example_y2 = [0, 1]"
  by (simp add: astype_int32_def int32_def example_y2_def)

lemma astype_int32_example_y3: "astype_int32 example_y3 = [0, 1, 2]"
  by (simp add: astype_int32_def int32_def example_y3_def)

lemmas example_library_simps =
  example_library_def example_fit_transform_def imputer_column_def min_max_column_def
  List.map_filter_def astype_int32_def int32_def

lemmas run_simps =
  fit_def call_partial_fit_def partial_fit_def check_inputs_def transform_data_def
  get_train_features_def unique_def shape1_def Experiment_def train_def Let_def

lemma fit_example:
  "fit example_library (default_classifier :: rat adapter) example_X3 example_y3 w =
     Inr fitted_example"
  by (simp add: run_simps example_library_simps default_classifier_def TheanetsClassifier_def
        fitted_example_def example_X3_def example_y3_def)

subsection \<open>Replaying the schedule\<close>

lemma fit_Inr_nonempty:
  assumes "fit lib self X y sample_weight = Inr self'" and "trainers self \<noteq> []"
  shows "\<exists>X2. transform_data lib self X = Inr X2 \<and>
           self' = self\<lparr>classes := Some (unique y),
                     input_layer := (if input_layer self = - 1 then shape1 X2 else input_layer self),
                     output_layer := (if output_layer self = - 1 then int (length (unique y))
                                      else output_layer self),
                     exp := Some \<lparr>net_layers =
                                    [PInt (if input_layer self = - 1 then shape1 X2
                                           else input_layer self)]
                                    @ layers self @
                                    [PInt (if output_layer self = - 1 then int (length (unique y))
                                           else output_layer self)],
                                  net_options = network_params self,
                                  net_trained =
                                    map (\<lambda>t. (astype_float32 lib X2, astype_int32 y,
                                              AList.delete ''sample_weight'' (snd t)))
                                      (trainers self)\<rparr>\<rparr>"
proof -
  obtain t0 ts where ts: "map snd (trainers self) = t0 # ts"
    using assms(2) by (cases "trainers self") auto
  have run: "fit_stages lib (self\<lparr>exp := None\<rparr>) X y (t0 # ts) = Inr self'"
    using assms(1) unfolding fit_def ts .
  have tr: "transform_data lib (self\<lparr>exp := None\<rparr>) X = transform_data lib self X"
    by (rule transform_data_features) simp
  have m: "map (\<lambda>t. (astype_float32 lib A, astype_int32 y,
                     AList.delete ''sample_weight'' (snd t))) (trainers self) =
           (astype_float32 lib A, astype_int32 y, AList.delete ''sample_weight'' t0) #
           map (\<lambda>t. (astype_float32 lib A, astype_int32 y,
                     AList.delete ''sample_weight'' t)) ts" for A
  proof -
    have "map (\<lambda>t. (astype_float32 lib A, astype_int32 y,
                     AList.delete ''sample_weight'' (snd t))) (trainers self) =
          map (\<lambda>t. (astype_float32 lib A, astype_int32 y,
                     AList.delete ''sample_weight'' t)) (map snd (trainers self))"
      by (simp add: comp_def)
    then show ?thesis unfolding ts by simp
  qed
  from fit_stages_Inr_fresh [OF run] show ?thesis
    unfolding tr by (simp add: m split del: if_split cong del: if_weak_cong)
qed

lemma fit_empty:
  "trainers self = [] \<Longrightarrow> fit lib self X y sample_weight = Inr (self\<lparr>exp := None\<rparr>)"
  by (simp add: fit_def)

lemma fit_frame:
  assumes "fit lib self X y sample_weight = r" and "r = Inr s \<or> r = Inl (err, s)"
  shows "trainers s = trainers self \<and> layers s = layers self \<and>
         network_params s = network_params self \<and> features s = features self"
  using fit_stages_frame [OF assms(1) [unfolded fit_def] assms(2)] by simp

text \<open>
  C1 (amended). \<^verbatim>\<open>fit\<close> sets the handle to \<^verbatim>\<open>None\<close>, so that its outcome
  does not depend on the handle the adapter had. When it returns, the schedule is the one
  it was before the call; on an empty schedule the adapter is returned with no handle and
  otherwise unchanged; on a non-empty schedule the new handle has been trained once per
  stage, in the order of the schedule, each time on the preprocessed table and the labels
  cast to 32 bits, with the entries of the stage other than \<^verbatim>\<open>sample_weight\<close>.
  When it raises, the schedule is also the one it was before. It does return when
  \<^verbatim>\<open>check_inputs\<close> accepts the input, the preprocessing returns, no stage has an
  entry named like a parameter of \<^verbatim>\<open>partial_fit\<close>, the library constructs the network
  with the resolved sizes and no training call raises.
\<close>

theorem fit_replays_schedule:
  "fit lib (self\<lparr>exp := h\<rparr>) X y sample_weight = fit lib self X y sample_weight \<and>
   (fit lib self X y sample_weight = Inr self' \<longrightarrow>
      trainers self' = trainers self \<and>
      (trainers self = [] \<longrightarrow> self' = self\<lparr>exp := None\<rparr>) \<and>
      (trainers self \<noteq> [] \<longrightarrow>
         (\<exists>A. transform_data lib self X = Inr A \<and>
               map_option net_trained (exp self') =
                 Some (map (\<lambda>t. (astype_float32 lib A, astype_int32 y,
                                  AList.delete ''sample_weight'' (snd t)))
                        (trainers self))))) \<and>
   (fit lib self X y sample_weight = Inl (err, self') \<longrightarrow> trainers self' = trainers self) \<and>
   (check_inputs X y PNone = Inr (X, y, PNone) \<and>
    transform_data lib self X = Inr X2 \<and>
    (\<forall>t\<in>set (trainers self). fst ` set (snd t) \<inter> set partial_fit_params = {}) \<and>
    Experiment_raises lib
      ([PInt (if input_layer self = - 1 then shape1 X2 else input_layer self)] @ layers self @
       [PInt (if output_layer self = - 1 then int (length (unique y)) else output_layer self)])
      (network_params self) = None \<and>
    (\<forall>e t. train_raises lib e (astype_float32 lib X2, astype_int32 y) t = None) \<longrightarrow>
    (\<exists>s. fit lib self X y sample_weight = Inr s))"
proof -
  have c1: "fit lib (self\<lparr>exp := h\<rparr>) X y sample_weight = fit lib self X y sample_weight"
    by (simp add: fit_def)
  have c2: "trainers self' = trainers self \<and>
      (trainers self = [] \<longrightarrow> self' = self\<lparr>exp := None\<rparr>) \<and>
      (trainers self \<noteq> [] \<longrightarrow>
         (\<exists>A. transform_data lib self X = Inr A \<and>
               map_option net_trained (exp self') =
                 Some (map (\<lambda>t. (astype_float32 lib A, astype_int32 y,
                                  AList.delete ''sample_weight'' (snd t)))
                        (trainers self))))"
    if ok: "fit lib self X y sample_weight = Inr self'"
  proof -
    have a: "trainers self' = trainers self"
      using fit_frame [OF ok, of self'] by simp
    have b: "self' = self\<lparr>exp := None\<rparr>" if "trainers self = []"
      using ok fit_empty [OF that, of lib X y sample_weight] by simp
    have c: "\<exists>A. transform_data lib self X = Inr A \<and>
               map_option net_trained (exp self') =
                 Some (map (\<lambda>t. (astype_float32 lib A, astype_int32 y,
                                  AList.delete ''sample_weight'' (snd t)))
                        (trainers self))" if "trainers self \<noteq> []"
    proof -
      from fit_Inr_nonempty [OF ok that] obtain A
        where tr: "transform_data lib self X = Inr A"
          and s: "map_option net_trained (exp self') =
                 Some (map (\<lambda>t. (astype_float32 lib A, astype_int32 y,
                                  AList.delete ''sample_weight'' (snd t)))
                        (trainers self))"
        by auto
      then show ?thesis by blast
    qed
    from a b c show ?thesis by blast
  qed
  have c3: "trainers self' = trainers self" if "fit lib self X y sample_weight = Inl (err, self')"
    using fit_frame [OF that, of self' err] by simp
  have c4: "\<exists>s. fit lib self X y sample_weight = Inr s"
    if hyp: "check_inputs X y PNone = Inr (X, y, PNone) \<and>
    transform_data lib self X = Inr X2 \<and>
    (\<forall>t\<in>set (trainers self). fst ` set (snd t) \<inter> set partial_fit_params = {}) \<and>
    Experiment_raises lib
      ([PInt (if input_layer self = - 1 then shape1 X2 else input_layer self)] @ layers self @
       [PInt (if output_layer self = - 1 then int (length (unique y)) else output_layer self)])
      (network_params self) = None \<and>
    (\<forall>e t. train_raises lib e (astype_float32 lib X2, astype_int32 y) t = None)"
  proof -
    have tr: "transform_data lib (self\<lparr>exp := None\<rparr>) X = Inr X2"
      using hyp transform_data_features [of "self\<lparr>exp := None\<rparr>" self lib X] by simp
    have plain: "\<forall>t\<in>set (map snd (trainers self)). fst ` set t \<inter> set partial_fit_params = {}"
      using hyp by simp
    have "\<exists>s. fit_stages lib (self\<lparr>exp := None\<rparr>) X y (map snd (trainers self)) = Inr s"
      by (rule fit_stages_returns [where ?X2.0 = X2, OF _ tr plain]) (use hyp in \<open>simp_all split del: if_split cong del: if_weak_cong\<close>)
    then show ?thesis by (simp add: fit_def)
  qed
  from c1 c2 c3 c4 show ?thesis by blast
qed

lemma fit_rebinding_example:
  "fit example_library
      ((default_classifier :: rat adapter)\<lparr>trainers := [(0, [(''new_trainer'', PBool True)])]\<rparr>)
      example_X3 example_y3 PNone =
     Inl (TypeError, default_classifier\<lparr>trainers := [(0, [(''new_trainer'', PBool True)])]\<rparr>)"
  by (simp add: fit_def call_partial_fit_def default_classifier_def TheanetsClassifier_def)

theorem fit_replays_schedule_witness:
  "(\<exists>s. fit example_library
         (fitted_example\<lparr>trainers := [(0, []), (1, [(''momentum'', PFloat 1 (- 1))])]\<rparr>)
         example_X2 example_y2 PNone = Inr s \<and>
       trainers s = [(0, []), (1, [(''momentum'', PFloat 1 (- 1))])] \<and>
       map_option net_trained (exp s) =
         Some [([[0, 1]], [0, 1], []), ([[0, 1]], [0, 1], [(''momentum'', PFloat 1 (- 1))])]) \<and>
   fit example_library (fitted_example\<lparr>trainers := []\<rparr>) example_X2 example_y2 PNone =
     Inr (fitted_example\<lparr>trainers := [], exp := None\<rparr>) \<and>
   (\<exists>s. fit example_library
         ((default_classifier :: rat adapter)\<lparr>trainers := [(0, [(''new_trainer'', PBool True)])]\<rparr>)
         example_X3 example_y3 PNone = Inl (TypeError, s) \<and>
       trainers s = [(0, [(''new_trainer'', PBool True)])])"
proof -
  let ?a = "fitted_example\<lparr>trainers := [(0, []), (1, [(''momentum'', PFloat 1 (- 1))])]\<rparr>"
  have f: "features ?a = None"
    by (simp add: fitted_example_def default_classifier_def TheanetsClassifier_def)
  have tr: "transform_data example_library ?a example_X2 = Inr [[0, 1]]"
    by (rule transform_example_2 [OF f])
  have plain: "\<forall>t\<in>set (trainers ?a). fst ` set (snd t) \<inter> set partial_fit_params = {}"
    by (simp add: partial_fit_params_def)
  have cons: "Experiment_raises example_library
      ([PInt (if input_layer ?a = - 1 then shape1 [[0, 1 :: rat]] else input_layer ?a)] @ layers ?a @
       [PInt (if output_layer ?a = - 1 then int (length (unique example_y2)) else output_layer ?a)])
      (network_params ?a) = None"
    by (simp add: example_library_def fitted_example_def default_classifier_def
          TheanetsClassifier_def)
  have trn: "\<forall>e t. train_raises example_library e
               (astype_float32 example_library [[0, 1]], astype_int32 example_y2) t = None"
    by (simp add: example_library_def)
  note T = fit_replays_schedule [where lib = example_library and self = ?a and X = example_X2
      and y = example_y2 and sample_weight = PNone and ?X2.0 = "[[0, 1]]"]
  from T check_example_2 tr plain cons trn
  obtain s where s: "fit example_library ?a example_X2 example_y2 PNone = Inr s" by blast
  from T [where self' = s] s
  have a: "trainers s = trainers ?a"
    and b: "trainers ?a \<noteq> [] \<longrightarrow>
         (\<exists>A. transform_data example_library ?a example_X2 = Inr A \<and>
               map_option net_trained (exp s) =
                 Some (map (\<lambda>t. (astype_float32 example_library A, astype_int32 example_y2,
                                  AList.delete ''sample_weight'' (snd t)))
                        (trainers ?a)))"
    by blast+
  have c: "map_option net_trained (exp s) =
         Some [([[0, 1]], [0, 1], []), ([[0, 1]], [0, 1], [(''momentum'', PFloat 1 (- 1))])]"
    using b tr by (auto simp: astype_int32_example_y2 example_library_def)
  let ?n = "fitted_example\<lparr>trainers := []\<rparr>"
  obtain s0 where s0: "fit example_library ?n example_X2 example_y2 PNone = Inr s0"
    by (simp add: fit_def)
  have tn: "trainers ?n = []" by simp
  from fit_replays_schedule [where lib = example_library and self = ?n and X = example_X2
      and y = example_y2 and sample_weight = PNone and self' = s0] s0 tn
  have "s0 = ?n\<lparr>exp := None\<rparr>" by blast
  with s0 have d: "fit example_library ?n example_X2 example_y2 PNone =
                   Inr (fitted_example\<lparr>trainers := [], exp := None\<rparr>)" by simp
  let ?r = "(default_classifier :: rat adapter)\<lparr>trainers := [(0, [(''new_trainer'', PBool True)])]\<rparr>"
  from fit_replays_schedule [where lib = example_library and self = ?r and X = example_X3
      and y = example_y3 and sample_weight = PNone and err = TypeError and self' = ?r]
    fit_rebinding_example
  have "trainers ?r = trainers ?r" by blast
  then have e: "\<exists>s. fit example_library ?r example_X3 example_y3 PNone = Inl (TypeError, s) \<and>
       trainers s = [(0, [(''new_trainer'', PBool True)])]"
    using fit_rebinding_example by simp
  from s a c d e show ?thesis by auto
qed

text \<open>
  The claim as it was stated fails on an adapter constructed with
  \<^verbatim>\<open>trainers=[{'new_trainer': True}]\<close> and an input that \<^verbatim>\<open>check_inputs\<close>
  accepts: the call \<^verbatim>\<open>partial_fit(X, y, new_trainer=False, **trainer)\<close> gives
  \<^verbatim>\<open>new_trainer\<close> twice, and \<^verbatim>\<open>fit\<close> raises \<^verbatim>\<open>TypeError\<close> instead of
  returning the adapter.
\<close>

theorem fit_stage_entry_rebinds_counterexample:
  "fit example_library
      ((default_classifier :: rat adapter)\<lparr>trainers := [(0, [(''new_trainer'', PBool True)])]\<rparr>)
      example_X3 example_y3 PNone =
     Inl (TypeError, default_classifier\<lparr>trainers := [(0, [(''new_trainer'', PBool True)])]\<rparr>) \<and>
   check_inputs example_X3 example_y3 PNone = Inr (example_X3, example_y3, PNone)"
  using fit_rebinding_example check_example_3 [of PNone] by simp

subsection \<open>Per-sample weights\<close>

text \<open>
  C8. \<^verbatim>\<open>fit\<close> with per-sample weights on a newly constructed adapter, a table of one
  column and two rows, and the labels 0 and 1: the call returns the trained adapter and
  raises nothing, since \<^verbatim>\<open>fit\<close> does not hand its \<^verbatim>\<open>sample_weight\<close> to
  \<^verbatim>\<open>partial_fit\<close>. The same weights given to \<^verbatim>\<open>partial_fit\<close> raise
  \<^verbatim>\<open>NotImplementedError\<close> and leave the adapter as it was.
\<close>

theorem fit_ignores_sample_weight:
  "fit example_library (default_classifier :: rat adapter) [(''a'', [Some 0, Some 1])] [0, 1]
       (PList [PFloat 1 0, PFloat 1 0]) =
     Inr (default_classifier
            \<lparr>input_layer := 1, output_layer := 2, classes := Some [0, 1],
             exp := Some \<lparr>net_layers = [PInt 1, PInt 10, PInt 2],
                          net_options = network_params (default_classifier :: rat adapter),
                          net_trained = [([[0, 1]], [0, 1], [])]\<rparr>\<rparr>) \<and>
   partial_fit example_library (default_classifier :: rat adapter) [(''a'', [Some 0, Some 1])]
       [0, 1] (PList [PFloat 1 0, PFloat 1 0]) True [] =
     Inl (NotImplementedError, default_classifier)"
  by (simp add: run_simps example_library_simps default_classifier_def TheanetsClassifier_def)

subsection \<open>Layer sizes and class labels after training\<close>

lemma partial_fit_Inr_state:
  assumes "partial_fit lib self X y sample_weight new_trainer trainer = Inr self'"
  shows "\<exists>X2 e'. transform_data lib self X = Inr X2 \<and>
     classes self' = Some (unique y) \<and>
     input_layer self' =
       (if exp self = None \<and> input_layer self = - 1 then shape1 X2 else input_layer self) \<and>
     output_layer self' =
       (if exp self = None \<and> output_layer self = - 1 then int (length (unique y))
        else output_layer self) \<and>
     layers self' = layers self \<and> network_params self' = network_params self \<and>
     features self' = features self \<and>
     exp self' = Some e' \<and>
     net_layers e' =
       (case exp self of
          None \<Rightarrow>
            [PInt (if input_layer self = - 1 then shape1 X2 else input_layer self)] @ layers self @
            [PInt (if output_layer self = - 1 then int (length (unique y)) else output_layer self)]
        | Some e \<Rightarrow> net_layers e) \<and>
     net_options e' = (case exp self of None \<Rightarrow> network_params self | Some e \<Rightarrow> net_options e)"
proof -
  from partial_fit_InrD [OF assms] obtain X2 where sw: "sample_weight = PNone"
    and v: "check_inputs X y PNone = Inr (X, y, PNone)"
    and tr: "transform_data lib self X = Inr X2" by blast
  show ?thesis
  proof (cases "exp self")
    case None
    define il where "il = (if input_layer self = - 1 then shape1 X2 else input_layer self)"
    define ol where "ol = (if output_layer self = - 1 then int (length (unique y))
                           else output_layer self)"
    have "\<exists>e'. classes self' = Some (unique y) \<and> input_layer self' = il \<and>
            output_layer self' = ol \<and> layers self' = layers self \<and>
            network_params self' = network_params self \<and> features self' = features self \<and>
            exp self' = Some e' \<and> net_layers e' = [PInt il] @ layers self @ [PInt ol] \<and>
            net_options e' = network_params self"
      using assms sw partial_fit_fresh [OF v tr None il_def ol_def refl, of new_trainer trainer]
      by (auto split: option.splits)
    then show ?thesis using tr None unfolding il_def ol_def by auto
  next
    case (Some e)
    have "\<exists>e'. classes self' = Some (unique y) \<and> input_layer self' = input_layer self \<and>
            output_layer self' = output_layer self \<and> layers self' = layers self \<and>
            network_params self' = network_params self \<and> features self' = features self \<and>
            exp self' = Some e' \<and> net_layers e' = net_layers e \<and> net_options e' = net_options e"
      using assms sw partial_fit_handle [OF v tr Some, of new_trainer trainer]
      by (auto split: option.splits)
    then show ?thesis using tr Some by auto
  qed
qed



lemma partial_fit_handle_kept:
  assumes "partial_fit lib self X y sample_weight new_trainer trainer = Inr self'"
    and "exp self = Some e"
  shows "map_option net_layers (exp self') = Some (net_layers e) \<and>
         input_layer self' = input_layer self \<and> output_layer self' = output_layer self"
  using partial_fit_Inr_state [OF assms(1)] assms(2) by auto

lemma partial_fit_fresh_sizes:
  assumes "partial_fit lib self X y sample_weight new_trainer trainer = Inr self'"
    and "exp self = None"
  shows "\<exists>X2. transform_data lib self X = Inr X2 \<and>
     input_layer self' = (if input_layer self = - 1 then shape1 X2 else input_layer self) \<and>
     output_layer self' =
       (if output_layer self = - 1 then int (length (unique y)) else output_layer self) \<and>
     map_option net_layers (exp self') =
       Some ([PInt (if input_layer self = - 1 then shape1 X2 else input_layer self)] @ layers self @
             [PInt (if output_layer self = - 1 then int (length (unique y))
                    else output_layer self)]) \<and>
     map_option net_options (exp self') = Some (network_params self)"
proof -
  from partial_fit_Inr_state [OF assms(1)] obtain X2 e'
    where "transform_data lib self X = Inr X2"
      and "input_layer self' =
             (if exp self = None \<and> input_layer self = - 1 then shape1 X2 else input_layer self)"
      and "output_layer self' =
             (if exp self = None \<and> output_layer self = - 1 then int (length (unique y))
              else output_layer self)"
      and "exp self' = Some e'"
      and "net_layers e' =
       (case exp self of
          None \<Rightarrow>
            [PInt (if input_layer self = - 1 then shape1 X2 else input_layer self)] @ layers self @
            [PInt (if output_layer self = - 1 then int (length (unique y)) else output_layer self)]
        | Some e \<Rightarrow> net_layers e)"
      and "net_options e' = (case exp self of None \<Rightarrow> network_params self | Some e \<Rightarrow> net_options e)"
    by blast
  then show ?thesis
    using assms(2) by (intro exI [of _ X2]) (simp split del: if_split cong del: if_weak_cong)
qed

lemma fit_sizes:
  assumes "fit lib self X y sample_weight = Inr self'" and "trainers self \<noteq> []"
  shows "\<exists>X2. transform_data lib self X = Inr X2 \<and>
     classes self' = Some (unique y) \<and>
     input_layer self' = (if input_layer self = - 1 then shape1 X2 else input_layer self) \<and>
     output_layer self' =
       (if output_layer self = - 1 then int (length (unique y)) else output_layer self) \<and>
     map_option net_layers (exp self') =
       Some ([PInt (if input_layer self = - 1 then shape1 X2 else input_layer self)] @ layers self @
             [PInt (if output_layer self = - 1 then int (length (unique y))
                    else output_layer self)]) \<and>
     map_option net_options (exp self') = Some (network_params self)"
proof -
  from fit_Inr_nonempty [OF assms] obtain X2
    where tr: "transform_data lib self X = Inr X2"
      and s: "self' = self\<lparr>classes := Some (unique y),
                     input_layer := (if input_layer self = - 1 then shape1 X2 else input_layer self),
                     output_layer := (if output_layer self = - 1 then int (length (unique y))
                                      else output_layer self),
                     exp := Some \<lparr>net_layers =
                                    [PInt (if input_layer self = - 1 then shape1 X2
                                           else input_layer self)]
                                    @ layers self @
                                    [PInt (if output_layer self = - 1 then int (length (unique y))
                                           else output_layer self)],
                                  net_options = network_params self,
                                  net_trained =
                                    map (\<lambda>t. (astype_float32 lib X2, astype_int32 y,
                                              AList.delete ''sample_weight'' (snd t)))
                                      (trainers self)\<rparr>\<rparr>"
    by blast
  show ?thesis
    by (intro exI [of _ X2]) (simp add: tr s split del: if_split cong del: if_weak_cong)
qed




lemma set_params_output_layer:
  "set_params self [(''output_layer'', PInt n)] = Inr (self\<lparr>output_layer := n\<rparr>)"
  by (simp add: hasattr_def instance_attrs_def setattr_def)



lemma unique_example_y100: "unique example_y100 = [0, 1, 2]"
  by code_simp

lemma check_example_100:
  "check_inputs example_X100 example_y100 PNone = Inr (example_X100, example_y100, PNone)"
  by (simp add: check_inputs_def example_X100_def example_y100_def)

lemma min_max_example_100:
  "min_max_column (replicate 50 0 @ replicate 50 1) = replicate 50 0 @ replicate 50 1"
  by code_simp

lemma imputer_example_100:
  "imputer_column (replicate 50 (Some 0) @ replicate 50 (Some 1)) =
     Some (replicate 50 0 @ replicate 50 1)"
  by code_simp

lemma transform_example_100:
  "transform_data example_library example_classifier5 example_X100 =
     Inr [replicate 50 0 @ replicate 50 1, replicate 50 0 @ replicate 50 1,
          replicate 50 0 @ replicate 50 1, replicate 50 0 @ replicate 50 1]"
  by (simp add: transform_data_def get_train_features_def example_classifier5_def
        TheanetsClassifier_def example_X100_def example_library_def example_fit_transform_def
        List.map_filter_def imputer_example_100 min_max_example_100)

lemma fitted_example_fields:
  "layers fitted_example = [PInt 10]" "input_layer fitted_example = 1"
  "output_layer fitted_example = 3" "trainers fitted_example = [(0, [])]"
  "features fitted_example = None" "classes fitted_example = Some [0, 1, 2]"
  "exp fitted_example =
     Some \<lparr>net_layers = [PInt 1, PInt 10, PInt 3],
           net_options = network_params (default_classifier :: rat adapter),
           net_trained = [([[0, 1 / 2, 1]], [0, 1, 2], [])]\<rparr>"
  "network_params fitted_example = network_params (default_classifier :: rat adapter)"
  by (simp_all add: fitted_example_def default_classifier_def TheanetsClassifier_def)

lemma refit_example:
  "fit example_library fitted_example example_X2 example_y2 w =
     Inr (fitted_example
            \<lparr>classes := Some [0, 1],
             exp := Some \<lparr>net_layers = [PInt 1, PInt 10, PInt 3],
                          net_options = network_params fitted_example,
                          net_trained = [([[0, 1]], [0, 1], [])]\<rparr>\<rparr>)"
  by (simp add: run_simps example_library_simps default_classifier_def TheanetsClassifier_def
        fitted_example_def example_X2_def example_y2_def)

lemma refit_reset_example:
  "fit example_library (fitted_example\<lparr>output_layer := - 1\<rparr>) example_X2 example_y2 w =
     Inr (fitted_example
            \<lparr>output_layer := 2, classes := Some [0, 1],
             exp := Some \<lparr>net_layers = [PInt 1, PInt 10, PInt 2],
                          net_options = network_params fitted_example,
                          net_trained = [([[0, 1]], [0, 1], [])]\<rparr>\<rparr>)"
  by (simp add: run_simps example_library_simps default_classifier_def TheanetsClassifier_def
        fitted_example_def example_X2_def example_y2_def)

lemma partial_fit_example:
  "partial_fit example_library fitted_example example_X2 example_y2 PNone True [] =
     Inr (fitted_example
            \<lparr>classes := Some [0, 1], trainers := [(0, []), (1, [])],
             exp := Some \<lparr>net_layers = [PInt 1, PInt 10, PInt 3],
                          net_options = network_params fitted_example,
                          net_trained = [([[0, 1 / 2, 1]], [0, 1, 2], []),
                                         ([[0, 1]], [0, 1], [])]\<rparr>\<rparr>)"
  by (simp add: run_simps example_library_simps default_classifier_def TheanetsClassifier_def
        fitted_example_def example_X2_def example_y2_def fresh_id_def)

subsection \<open>Resolving the layer sizes\<close>

text \<open>
  C2 (amended). A \<^verbatim>\<open>partial_fit\<close> that returns on an adapter without handle has
  built the network with the sequence of the input size, the hidden layers and the output
  size, and with the network options, where a stored size of -1 is replaced by the number
  of columns of the array that the preprocessing returned (input) and by the number of
  distinct labels (output), and any other stored size is taken as it is. The sizes are
  resolved and stored before the network is constructed: when the constructor raises on the
  resolved sequence, the call raises with the resolved sizes stored. A \<^verbatim>\<open>fit\<close> that
  returns has built no network when the schedule is empty, and otherwise the network with
  the sequence resolved in the same way.
\<close>

theorem layer_sizes_resolved:
  "(exp self = None \<and> partial_fit lib self X y sample_weight new_trainer trainer = Inr self' \<longrightarrow>
      (\<exists>A. transform_data lib self X = Inr A \<and>
           map_option net_layers (exp self') =
             Some ([PInt (if input_layer self = - 1 then shape1 A else input_layer self)]
                   @ layers self @
                   [PInt (if output_layer self = - 1 then int (length (unique y))
                          else output_layer self)]) \<and>
           map_option net_options (exp self') = Some (network_params self))) \<and>
   (exp self = None \<and> check_inputs X y PNone = Inr (X, y, PNone) \<and>
    transform_data lib self X = Inr X2 \<and>
    Experiment_raises lib
      ([PInt (if input_layer self = - 1 then shape1 X2 else input_layer self)] @ layers self @
       [PInt (if output_layer self = - 1 then int (length (unique y)) else output_layer self)])
      (network_params self) = Some name \<longrightarrow>
      partial_fit lib self X y PNone new_trainer trainer =
        Inl (External name,
             self\<lparr>classes := Some (unique y),
                  input_layer := (if input_layer self = - 1 then shape1 X2 else input_layer self),
                  output_layer := (if output_layer self = - 1 then int (length (unique y))
                                   else output_layer self)\<rparr>)) \<and>
   (fit lib self X y sample_weight = Inr self' \<longrightarrow>
      (trainers self = [] \<longrightarrow> exp self' = None) \<and>
      (trainers self \<noteq> [] \<longrightarrow>
         (\<exists>A. transform_data lib self X = Inr A \<and>
              map_option net_layers (exp self') =
                Some ([PInt (if input_layer self = - 1 then shape1 A else input_layer self)]
                      @ layers self @
                      [PInt (if output_layer self = - 1 then int (length (unique y))
                             else output_layer self)]) \<and>
              map_option net_options (exp self') = Some (network_params self))))"
proof -
  have 1: "\<exists>A. transform_data lib self X = Inr A \<and>
           map_option net_layers (exp self') =
             Some ([PInt (if input_layer self = - 1 then shape1 A else input_layer self)]
                   @ layers self @
                   [PInt (if output_layer self = - 1 then int (length (unique y))
                          else output_layer self)]) \<and>
           map_option net_options (exp self') = Some (network_params self)"
    if "exp self = None \<and> partial_fit lib self X y sample_weight new_trainer trainer = Inr self'"
  proof -
    from that have n: "exp self = None"
      and p: "partial_fit lib self X y sample_weight new_trainer trainer = Inr self'" by simp_all
    from partial_fit_fresh_sizes [OF p n] show ?thesis by blast
  qed
  have 2: "partial_fit lib self X y PNone new_trainer trainer =
        Inl (External name,
             self\<lparr>classes := Some (unique y),
                  input_layer := (if input_layer self = - 1 then shape1 X2 else input_layer self),
                  output_layer := (if output_layer self = - 1 then int (length (unique y))
                                   else output_layer self)\<rparr>)"
    if h: "exp self = None \<and> check_inputs X y PNone = Inr (X, y, PNone) \<and>
    transform_data lib self X = Inr X2 \<and>
    Experiment_raises lib
      ([PInt (if input_layer self = - 1 then shape1 X2 else input_layer self)] @ layers self @
       [PInt (if output_layer self = - 1 then int (length (unique y)) else output_layer self)])
      (network_params self) = Some name"
  proof -
    from h have n: "exp self = None" and c: "check_inputs X y PNone = Inr (X, y, PNone)"
      and tr: "transform_data lib self X = Inr X2"
      and r: "Experiment_raises lib
      ([PInt (if input_layer self = - 1 then shape1 X2 else input_layer self)] @ layers self @
       [PInt (if output_layer self = - 1 then int (length (unique y)) else output_layer self)])
      (network_params self) = Some name" by simp_all
    show ?thesis
      unfolding partial_fit_fresh [OF c tr n refl refl refl, of new_trainer trainer] r by simp
  qed
  have 3: "(trainers self = [] \<longrightarrow> exp self' = None) \<and>
      (trainers self \<noteq> [] \<longrightarrow>
         (\<exists>A. transform_data lib self X = Inr A \<and>
              map_option net_layers (exp self') =
                Some ([PInt (if input_layer self = - 1 then shape1 A else input_layer self)]
                      @ layers self @
                      [PInt (if output_layer self = - 1 then int (length (unique y))
                             else output_layer self)]) \<and>
              map_option net_options (exp self') = Some (network_params self)))"
    if f: "fit lib self X y sample_weight = Inr self'"
  proof (cases "trainers self = []")
    case True
    from fit_empty [OF True, of lib X y sample_weight] f have "self' = self\<lparr>exp := None\<rparr>" by simp
    then show ?thesis using True by simp
  next
    case False
    from fit_sizes [OF f False] show ?thesis using False by blast
  qed
  from 1 2 3 show ?thesis by blast
qed

lemma partial_fit_example_100:
  "\<exists>s. partial_fit example_library example_classifier5 example_X100 example_y100 PNone True [] =
         Inr s"
proof -
  have n: "exp example_classifier5 = None"
    by (simp add: example_classifier5_def TheanetsClassifier_def)
  show ?thesis
    unfolding partial_fit_fresh [OF check_example_100 transform_example_100 n refl refl refl]
    by (simp add: example_library_def example_classifier5_def TheanetsClassifier_def
          shape1_def unique_example_y100)
qed

lemma fit_example_100:
  "\<exists>s. fit example_library example_classifier5 example_X100 example_y100 PNone = Inr s"
proof -
  have tr: "transform_data example_library (example_classifier5\<lparr>exp := None\<rparr>) example_X100 =
     Inr [replicate 50 0 @ replicate 50 1, replicate 50 0 @ replicate 50 1,
          replicate 50 0 @ replicate 50 1, replicate 50 0 @ replicate 50 1]"
    using transform_example_100
      transform_data_features [of "example_classifier5\<lparr>exp := None\<rparr>" example_classifier5
        example_library example_X100]
    by simp
  show ?thesis
    unfolding fit_def
    by (rule fit_stages_returns [OF check_example_100 tr])
       (simp_all add: example_library_def example_classifier5_def TheanetsClassifier_def
          shape1_def unique_example_y100 partial_fit_params_def)
qed

theorem layer_sizes_resolved_witness:
  "length example_X100 = 4 \<and> length example_y100 = 100 \<and> length (unique example_y100) = 3 \<and>
   (\<exists>s. fit example_library example_classifier5 example_X100 example_y100 PNone = Inr s \<and>
      map_option net_layers (exp s) = Some [PInt 4, PInt 5, PInt 3]) \<and>
   (\<exists>s. partial_fit example_library example_classifier5 example_X100 example_y100 PNone True [] =
          Inr s \<and>
      map_option net_layers (exp s) = Some [PInt 4, PInt 5, PInt 3]) \<and>
   partial_fit example_library ((default_classifier :: rat adapter)\<lparr>output_layer := - 2\<rparr>)
       example_X3 example_y3 PNone True [] =
     Inl (External ''ValueError'',
          default_classifier\<lparr>classes := Some [0, 1, 2], input_layer := 1, output_layer := - 2\<rparr>) \<and>
   (\<exists>s. fit example_library ((default_classifier :: rat adapter)\<lparr>trainers := []\<rparr>)
          example_X3 example_y3 PNone = Inr s \<and> exp s = None)"
proof -
  have c: "layers example_classifier5 = [PInt 5]" "input_layer example_classifier5 = - 1"
    "output_layer example_classifier5 = - 1" "trainers example_classifier5 = [(0, [])]"
    "features example_classifier5 = None" "exp example_classifier5 = None"
    by (simp_all add: example_classifier5_def TheanetsClassifier_def)
  have n4: "length example_X100 = 4" by (simp add: example_X100_def)
  have n100: "length example_y100 = 100" by (simp add: example_y100_def)
  obtain s1 where f: "fit example_library example_classifier5 example_X100 example_y100 PNone = Inr s1"
    using fit_example_100 by blast
  obtain s2 where p: "partial_fit example_library example_classifier5 example_X100 example_y100
                        PNone True [] = Inr s2"
    using partial_fit_example_100 by blast
  have 1: "map_option net_layers (exp s1) = Some [PInt 4, PInt 5, PInt 3]"
    using layer_sizes_resolved [where self = example_classifier5 and lib = example_library
        and X = example_X100 and y = example_y100 and sample_weight = PNone and self' = s1]
      f transform_example_100
    by (auto simp: c unique_example_y100 shape1_def)
  have 2: "map_option net_layers (exp s2) = Some [PInt 4, PInt 5, PInt 3]"
    using layer_sizes_resolved [where self = example_classifier5 and lib = example_library
        and X = example_X100 and y = example_y100 and sample_weight = PNone and self' = s2
        and new_trainer = True and trainer = "[]"]
      p transform_example_100
    by (auto simp: c unique_example_y100 shape1_def)
  let ?d = "(default_classifier :: rat adapter)\<lparr>output_layer := - 2\<rparr>"
  have d: "exp ?d = None" "features ?d = None" "input_layer ?d = - 1" "output_layer ?d = - 2"
    "layers ?d = [PInt 10]"
    by (simp_all add: default_classifier_def TheanetsClassifier_def)
  have r: "Experiment_raises example_library
      ([PInt (if input_layer ?d = - 1 then shape1 [[0, 1 / 2, 1 :: rat]] else input_layer ?d)]
       @ layers ?d @
       [PInt (if output_layer ?d = - 1 then int (length (unique example_y3)) else output_layer ?d)])
      (network_params ?d) = Some ''ValueError''"
    by (simp add: d example_library_def)
  have 3: "partial_fit example_library ?d example_X3 example_y3 PNone True [] =
     Inl (External ''ValueError'',
          default_classifier\<lparr>classes := Some [0, 1, 2], input_layer := 1, output_layer := - 2\<rparr>)"
    using layer_sizes_resolved [where self = ?d and lib = example_library
        and X = example_X3 and y = example_y3 and ?X2.0 = "[[0, 1 / 2, 1]]"
        and name = "''ValueError''" and new_trainer = True and trainer = "[]"]
      check_example_3 [of PNone] transform_example_3 [OF d(2)] r d(1)
    by (simp add: d unique_example_y3 shape1_def)
  let ?n = "(default_classifier :: rat adapter)\<lparr>trainers := []\<rparr>"
  have f0: "fit example_library ?n example_X3 example_y3 PNone = Inr (?n\<lparr>exp := None\<rparr>)"
    by (rule fit_empty) simp
  have 4: "exp (?n\<lparr>exp := None\<rparr>) = None"
    using layer_sizes_resolved [where self = ?n and lib = example_library
        and X = example_X3 and y = example_y3 and sample_weight = PNone
        and self' = "?n\<lparr>exp := None\<rparr>"] f0
    by simp
  show ?thesis
    using f p 1 2 3 4 f0 n4 n100 unique_example_y100 by auto
qed

text \<open>
  The claim as it was stated fails on a table of two feature columns one of which has no
  observed value: the imputer discards that column, and a newly constructed adapter builds
  the network with the input size 1, although the table has two features. It also fails
  on an empty schedule, where \<^verbatim>\<open>fit\<close> returns and no network is constructed.
\<close>

theorem imputer_discards_column_counterexample:
  "length example_X_missing = 2 \<and>
   features (default_classifier :: rat adapter) = None \<and>
   input_layer (default_classifier :: rat adapter) = - 1 \<and>
   fit example_library (default_classifier :: rat adapter) example_X_missing example_y3 PNone =
     Inr fitted_example \<and>
   map_option net_layers (exp fitted_example) = Some [PInt 1, PInt 10, PInt 3] \<and>
   fit example_library ((default_classifier :: rat adapter)\<lparr>trainers := []\<rparr>)
       example_X3 example_y3 PNone =
     Inr (default_classifier\<lparr>trainers := []\<rparr>) \<and>
   exp ((default_classifier :: rat adapter)\<lparr>trainers := []\<rparr>) = None"
  by (simp add: run_simps example_library_simps default_classifier_def TheanetsClassifier_def
        fitted_example_def example_X_missing_def example_y3_def)

subsection \<open>Stored sizes, output width and class labels\<close>




text \<open>
  C6, as the code has it. While a handle exists, \<^verbatim>\<open>partial_fit\<close> leaves the layer
  sequence of the handle and the stored output size as they are. A \<^verbatim>\<open>fit\<close> with a
  schedule that is not empty builds a new network whose output width is the stored
  output size, and is the number of distinct labels of the new data only when the stored
  size is -1 at that moment; \<^verbatim>\<open>set_params(output_layer=-1)\<close> stores -1 again.
\<close>

theorem output_width_frozen:
  "(exp self = Some e \<and> partial_fit lib self X y sample_weight new_trainer trainer = Inr self' \<longrightarrow>
      map_option net_layers (exp self') = Some (net_layers e) \<and>
      output_layer self' = output_layer self) \<and>
   (trainers self \<noteq> [] \<and> fit lib self X y sample_weight = Inr self' \<longrightarrow>
      map_option (\<lambda>h. last (net_layers h)) (exp self') =
        Some (PInt (if output_layer self = - 1 then int (length (unique y)) else output_layer self))) \<and>
   set_params self [(''output_layer'', PInt (- 1))] = Inr (self\<lparr>output_layer := - 1\<rparr>)"
proof (intro conjI impI)
  assume "exp self = Some e \<and> partial_fit lib self X y sample_weight new_trainer trainer = Inr self'"
  then have e: "exp self = Some e"
    and p: "partial_fit lib self X y sample_weight new_trainer trainer = Inr self'" by simp_all
  from partial_fit_handle_kept [OF p e]
  show "map_option net_layers (exp self') = Some (net_layers e)"
    and "output_layer self' = output_layer self" by simp_all
next
  assume "trainers self \<noteq> [] \<and> fit lib self X y sample_weight = Inr self'"
  then have n: "trainers self \<noteq> []" and f: "fit lib self X y sample_weight = Inr self'"
    by simp_all
  from fit_sizes [OF f n] obtain A
    where tr: "transform_data lib self X = Inr A"
      and nl: "map_option net_layers (exp self') =
           Some ([PInt (if input_layer self = - 1 then shape1 A else input_layer self)] @ layers self @
             [PInt (if output_layer self = - 1 then int (length (unique y))
                    else output_layer self)])"
    by blast
  then obtain h where h: "exp self' = Some h"
    and l: "net_layers h =
           [PInt (if input_layer self = - 1 then shape1 A else input_layer self)] @ layers self @
             [PInt (if output_layer self = - 1 then int (length (unique y))
                    else output_layer self)]"
    by auto
  have "last (net_layers h) =
        PInt (if output_layer self = - 1 then int (length (unique y)) else output_layer self)"
    unfolding l by simp
  then show "map_option (\<lambda>h. last (net_layers h)) (exp self') =
        Some (PInt (if output_layer self = - 1 then int (length (unique y)) else output_layer self))"
    using h by simp
next
  show "set_params self [(''output_layer'', PInt (- 1))] = Inr (self\<lparr>output_layer := - 1\<rparr>)"
    by (rule set_params_output_layer)
qed

text \<open>
  C6, as stated, fails: an adapter constructed with the output size -1 is fitted on data
  with three distinct labels, then fitted again on data with two distinct labels; the
  network of the second fit has the output width 3.
\<close>

theorem refit_keeps_output_width_counterexample:
  "output_layer (default_classifier :: rat adapter) = - 1 \<and>
   fit example_library (default_classifier :: rat adapter) example_X3 example_y3 PNone =
     Inr fitted_example \<and>
   length (unique example_y2) = 2 \<and>
   fit example_library fitted_example example_X2 example_y2 PNone =
     Inr (fitted_example
            \<lparr>classes := Some [0, 1],
             exp := Some \<lparr>net_layers = [PInt 1, PInt 10, PInt 3],
                          net_options = network_params fitted_example,
                          net_trained = [([[0, 1]], [0, 1], [])]\<rparr>\<rparr>)"
  using fit_example refit_example unique_example_y2
  by (simp add: default_classifier_def TheanetsClassifier_def)

theorem output_width_frozen_witness:
  "exp fitted_example \<noteq> None \<and>
   (\<exists>s. partial_fit example_library fitted_example example_X2 example_y2 PNone True [] = Inr s \<and>
        map_option net_layers (exp s) = Some [PInt 1, PInt 10, PInt 3] \<and> output_layer s = 3) \<and>
   (\<exists>s. fit example_library fitted_example example_X2 example_y2 PNone = Inr s \<and>
        map_option (\<lambda>h. last (net_layers h)) (exp s) = Some (PInt 3)) \<and>
   set_params fitted_example [(''output_layer'', PInt (- 1))] =
     Inr (fitted_example\<lparr>output_layer := - 1\<rparr>) \<and>
   (\<exists>s. fit example_library (fitted_example\<lparr>output_layer := - 1\<rparr>) example_X2 example_y2 PNone =
          Inr s \<and>
        map_option (\<lambda>h. last (net_layers h)) (exp s) = Some (PInt 2))"
proof -
  let ?e = "\<lparr>net_layers = [PInt 1, PInt 10, PInt 3],
             net_options = network_params (default_classifier :: rat adapter),
             net_trained = [([[0, 1 / 2, 1]], [0, 1, 2], [])]\<rparr>"
  let ?r = "fitted_example\<lparr>output_layer := - 1\<rparr>"
  have e: "exp fitted_example = Some ?e" by (rule fitted_example_fields(7))
  have ne: "trainers fitted_example \<noteq> []" by (simp add: fitted_example_fields)
  have ner: "trainers ?r \<noteq> []" by (simp add: fitted_example_fields)
  obtain s1 where s1: "partial_fit example_library fitted_example example_X2 example_y2 PNone
                         True [] = Inr s1"
    using partial_fit_example by blast
  obtain s2 where s2: "fit example_library fitted_example example_X2 example_y2 PNone = Inr s2"
    using refit_example by blast
  obtain s3 where s3: "fit example_library ?r example_X2 example_y2 PNone = Inr s3"
    using refit_reset_example by blast
  have 1: "map_option net_layers (exp s1) = Some [PInt 1, PInt 10, PInt 3] \<and> output_layer s1 = 3"
    using output_width_frozen [where self = fitted_example and e = ?e and lib = example_library
        and X = example_X2 and y = example_y2 and sample_weight = PNone and new_trainer = True
        and trainer = "[]" and self' = s1]
      e s1 by (simp add: fitted_example_fields)
  have 2: "map_option (\<lambda>h. last (net_layers h)) (exp s2) = Some (PInt 3)"
    using output_width_frozen [where self = fitted_example and lib = example_library
        and X = example_X2 and y = example_y2 and sample_weight = PNone and self' = s2]
      ne s2 by (simp add: fitted_example_fields)
  have 3: "set_params fitted_example [(''output_layer'', PInt (- 1))] = Inr ?r"
    using output_width_frozen [where self = fitted_example] by blast
  have 4: "map_option (\<lambda>h. last (net_layers h)) (exp s3) = Some (PInt 2)"
    using output_width_frozen [where self = ?r and lib = example_library
        and X = example_X2 and y = example_y2 and sample_weight = PNone and self' = s3]
      ner s3 by (simp add: unique_example_y2)
  have 0: "exp fitted_example \<noteq> None" using e by simp
  show ?thesis using 0 s1 s2 s3 1 2 3 4 by blast
qed




subsection \<open>Serialization\<close>

lemma getstate_no_handle:
  "exp self = None \<Longrightarrow>
   getstate lib self =
     Inr \<lparr>layers = layers self, input_layer = input_layer self,
          output_layer = output_layer self, network_params = network_params self,
          trainers = trainers self, features = features self, classes = classes self,
          dumped_exp = None\<rparr>"
  by (simp add: getstate_def)

lemma getstate_handle:
  "exp self = Some e \<Longrightarrow>
   getstate lib self =
     (case save_raises lib e of
        Some name \<Rightarrow> Inl (External name)
      | None \<Rightarrow>
          Inr \<lparr>layers = layers self, input_layer = input_layer self,
               output_layer = output_layer self, network_params = network_params self,
               trainers = trainers self, features = features self, classes = classes self,
               dumped_exp = Some (Blob e)\<rparr>)"
  by (simp add: getstate_def save_def split: option.splits)

lemma getstate_InrD:
  assumes "getstate lib self = Inr d"
  shows "layers d = layers self \<and> input_layer d = input_layer self \<and>
         output_layer d = output_layer self \<and> network_params d = network_params self \<and>
         trainers d = trainers self \<and> features d = features self \<and>
         classes d = classes self \<and> (dumped_exp d = None \<longleftrightarrow> exp self = None)"
proof (cases "exp self")
  case None
  from getstate_no_handle [OF None, of lib] assms show ?thesis using None by auto
next
  case (Some e)
  from getstate_handle [OF Some, of lib] assms show ?thesis
    using Some by (auto split: option.splits)
qed

lemma setstate_InrD:
  assumes "setstate lib d = Inr self'"
  shows "layers self' = layers d \<and> input_layer self' = input_layer d \<and>
         output_layer self' = output_layer d \<and> network_params self' = network_params d \<and>
         trainers self' = trainers d \<and> features self' = features d \<and>
         classes self' = classes d \<and> (exp self' = None \<longleftrightarrow> dumped_exp d = None)"
  using assms by (auto simp: setstate_def split: option.splits sum.splits)

lemma adapter_surjective:
  "\<lparr>layers = layers self, input_layer = input_layer self, output_layer = output_layer self,
    network_params = network_params self, trainers = trainers self, features = features self,
    classes = classes self, exp = exp self\<rparr> = (self :: 'd adapter)"
  by simp

lemma predict_proba_handle:
  assumes "exp a = Some e" and "exp b = Some e'" and "features a = features b"
    and "predict_gives lib e = predict_gives lib e'"
  shows "predict_proba lib a X = predict_proba lib b X"
proof -
  have tr: "transform_data lib a X = transform_data lib b X"
    by (rule transform_data_features [OF assms(3)])
  show ?thesis
    unfolding predict_proba_def tr
    using assms(1,2,4) by (simp add: check_fitted_def predict_def cong: sum.case_cong)
qed

text \<open>
  C5 (amended). When \<^verbatim>\<open>__getstate__\<close> and \<^verbatim>\<open>__setstate__\<close> both return, the
  restored adapter has the layers, the input and output sizes, the network options, the
  schedule, the feature list and the class labels of the original; the snapshot has no
  bytes exactly when the original has no handle, and the restored adapter has no handle
  exactly then. An adapter without handle is always restored, to itself. An adapter with a
  handle is restored to itself when saving returns, the constructor accepts the stored
  sizes, and loading the bytes into the newly constructed network gives the network that
  was saved. When the restored handle predicts as the saved one, \<^verbatim>\<open>predict_proba\<close>
  of the restored adapter is that of the original on every table. When the constructor
  raises on the stored sizes, \<^verbatim>\<open>__setstate__\<close> raises.
\<close>

theorem serialization_round_trip:
  "(getstate lib self = Inr d \<and> setstate lib d = Inr self' \<longrightarrow>
      layers self' = layers self \<and> input_layer self' = input_layer self \<and>
      output_layer self' = output_layer self \<and> network_params self' = network_params self \<and>
      trainers self' = trainers self \<and> features self' = features self \<and>
      classes self' = classes self \<and>
      (dumped_exp d = None \<longleftrightarrow> exp self = None) \<and> (exp self' = None \<longleftrightarrow> exp self = None)) \<and>
   (exp self = None \<longrightarrow>
      (\<exists>s. getstate lib self = Inr s \<and> dumped_exp s = None \<and> setstate lib s = Inr self)) \<and>
   (exp self = Some e \<and> save_raises lib e = None \<and>
    Experiment_raises lib ([PInt (input_layer self)] @ layers self @ [PInt (output_layer self)])
      (network_params self) = None \<and>
    load_gives lib
      \<lparr>net_layers = [PInt (input_layer self)] @ layers self @ [PInt (output_layer self)],
       net_options = network_params self, net_trained = []\<rparr> (Blob e) = Inr e \<longrightarrow>
      (\<exists>s. getstate lib self = Inr s \<and> dumped_exp s = Some (Blob e) \<and>
           setstate lib s = Inr self)) \<and>
   (getstate lib self = Inr d \<and> setstate lib d = Inr self' \<and> exp self = Some e \<and>
    exp self' = Some e' \<and> predict_gives lib e' = predict_gives lib e \<longrightarrow>
      predict_proba lib self' X = predict_proba lib self X) \<and>
   (exp self = Some e \<and> save_raises lib e = None \<and>
    Experiment_raises lib ([PInt (input_layer self)] @ layers self @ [PInt (output_layer self)])
      (network_params self) = Some name \<longrightarrow>
      (\<exists>s. getstate lib self = Inr s \<and> setstate lib s = Inl (External name)))"
proof -
  have 1: "layers self' = layers self \<and> input_layer self' = input_layer self \<and>
      output_layer self' = output_layer self \<and> network_params self' = network_params self \<and>
      trainers self' = trainers self \<and> features self' = features self \<and>
      classes self' = classes self \<and>
      (dumped_exp d = None \<longleftrightarrow> exp self = None) \<and> (exp self' = None \<longleftrightarrow> exp self = None)"
    if "getstate lib self = Inr d \<and> setstate lib d = Inr self'"
  proof -
    from that have g: "getstate lib self = Inr d" and s: "setstate lib d = Inr self'" by simp_all
    from getstate_InrD [OF g] setstate_InrD [OF s] show ?thesis by simp
  qed
  have 2: "\<exists>s. getstate lib self = Inr s \<and> dumped_exp s = None \<and> setstate lib s = Inr self"
    if n: "exp self = None"
  proof -
    obtain s where g: "getstate lib self = Inr s"
      and s: "s = \<lparr>layers = layers self, input_layer = input_layer self,
          output_layer = output_layer self, network_params = network_params self,
          trainers = trainers self, features = features self, classes = classes self,
          dumped_exp = None\<rparr>"
      using getstate_no_handle [OF n, of lib] by blast
    have "setstate lib s = Inr self"
      unfolding s using adapter_surjective [of self] n by (simp add: setstate_def)
    with g s show ?thesis by simp
  qed
  have 3: "\<exists>s. getstate lib self = Inr s \<and> dumped_exp s = Some (Blob e) \<and>
           setstate lib s = Inr self"
    if h: "exp self = Some e \<and> save_raises lib e = None \<and>
    Experiment_raises lib ([PInt (input_layer self)] @ layers self @ [PInt (output_layer self)])
      (network_params self) = None \<and>
    load_gives lib
      \<lparr>net_layers = [PInt (input_layer self)] @ layers self @ [PInt (output_layer self)],
       net_options = network_params self, net_trained = []\<rparr> (Blob e) = Inr e"
  proof -
    let ?s = "\<lparr>layers = layers self, input_layer = input_layer self,
          output_layer = output_layer self, network_params = network_params self,
          trainers = trainers self, features = features self, classes = classes self,
          dumped_exp = Some (Blob e)\<rparr>"
    from h have e: "exp self = Some e" by simp
    have g: "getstate lib self = Inr ?s"
      using h getstate_handle [OF e, of lib] by simp
    have "setstate lib ?s = Inr self"
      using adapter_surjective [of self] h by (simp add: setstate_def Experiment_def load_def)
    with g show ?thesis by simp
  qed
  have 4: "predict_proba lib self' X = predict_proba lib self X"
    if h: "getstate lib self = Inr d \<and> setstate lib d = Inr self' \<and> exp self = Some e \<and>
    exp self' = Some e' \<and> predict_gives lib e' = predict_gives lib e"
  proof -
    from h 1 have f: "features self' = features self" by blast
    from h have a: "exp self' = Some e'" and b: "exp self = Some e"
      and p: "predict_gives lib e' = predict_gives lib e" by simp_all
    show ?thesis by (rule predict_proba_handle [OF a b f p])
  qed
  have 5: "\<exists>s. getstate lib self = Inr s \<and> setstate lib s = Inl (External name)"
    if h: "exp self = Some e \<and> save_raises lib e = None \<and>
    Experiment_raises lib ([PInt (input_layer self)] @ layers self @ [PInt (output_layer self)])
      (network_params self) = Some name"
  proof -
    let ?s = "\<lparr>layers = layers self, input_layer = input_layer self,
          output_layer = output_layer self, network_params = network_params self,
          trainers = trainers self, features = features self, classes = classes self,
          dumped_exp = Some (Blob e)\<rparr>"
    from h have e: "exp self = Some e" by simp
    have g: "getstate lib self = Inr ?s"
      using h getstate_handle [OF e, of lib] by simp
    have "setstate lib ?s = Inl (External name)"
      using h by (simp add: setstate_def Experiment_def)
    with g show ?thesis by simp
  qed
  from 1 2 3 4 5 show ?thesis by blast
qed

lemma select_columns_error: "select_columns X fs = Inl err \<Longrightarrow> \<exists>f. err = KeyError f"
  by (induction fs arbitrary: err) (auto split: option.splits sum.splits)

lemma predict_proba_Some:
  "exp self = Some e \<Longrightarrow> transform_data lib self X = Inr X1 \<Longrightarrow>
   predict_proba lib self X = predict lib e (astype_float32 lib X1)"
  by (simp add: predict_proba_def check_fitted_def)

theorem serialization_round_trip_witness:
  "(\<exists>s. getstate example_library fitted_example = Inr s \<and>
        dumped_exp s \<noteq> None \<and> setstate example_library s = Inr fitted_example) \<and>
   (\<exists>s. getstate example_library (default_classifier :: rat adapter) = Inr s \<and>
        dumped_exp s = None \<and> setstate example_library s = Inr default_classifier) \<and>
   predict_proba example_library fitted_example example_X2 = Inr [PInt 1, PInt 10, PInt 3] \<and>
   (\<exists>s. getstate example_library (fitted_example\<lparr>output_layer := - 1\<rparr>) = Inr s \<and>
        setstate example_library s = Inl (External ''ValueError''))"
proof -
  let ?e = "\<lparr>net_layers = [PInt 1, PInt 10, PInt 3],
             net_options = network_params (default_classifier :: rat adapter),
             net_trained = [([[0, 1 / 2, 1]], [0, 1, 2], [])]\<rparr>"
  have e: "exp fitted_example = Some ?e" by (rule fitted_example_fields(7))
  have sv: "save_raises example_library ?e = None" by (simp add: example_library_def)
  have cons: "Experiment_raises example_library
      ([PInt (input_layer fitted_example)] @ layers fitted_example @
       [PInt (output_layer fitted_example)]) (network_params fitted_example) = None"
    by (simp add: example_library_def fitted_example_fields)
  have ld: "load_gives example_library
      \<lparr>net_layers = [PInt (input_layer fitted_example)] @ layers fitted_example @
                      [PInt (output_layer fitted_example)],
       net_options = network_params fitted_example, net_trained = []\<rparr> (Blob ?e) = Inr ?e"
    by (simp add: example_library_def)
  note T = serialization_round_trip [where lib = example_library and self = fitted_example
      and e = ?e]
  from T e sv cons ld
  obtain s where s: "getstate example_library fitted_example = Inr s"
    "dumped_exp s = Some (Blob ?e)" "setstate example_library s = Inr fitted_example"
    by blast
  have p: "predict_proba example_library fitted_example example_X2 =
           predict_proba example_library fitted_example example_X2"
    using T [where d = s and self' = fitted_example and e' = ?e and X = example_X2] s e
    by blast
  have q: "(dumped_exp s = None) = (exp fitted_example = None)"
    using T [where d = s and self' = fitted_example] s by blast
  have pv: "predict_proba example_library fitted_example example_X2 =
            Inr [PInt 1, PInt 10, PInt 3]"
    using predict_proba_Some [OF e transform_example_2 [OF fitted_example_fields(5)]]
    by (simp add: predict_def example_library_def)
  have n: "exp (default_classifier :: rat adapter) = None"
    by (simp add: default_classifier_def TheanetsClassifier_def)
  from serialization_round_trip [where lib = example_library
      and self = "default_classifier :: rat adapter"] n
  obtain s0 where s0: "getstate example_library (default_classifier :: rat adapter) = Inr s0"
    "dumped_exp s0 = None" "setstate example_library s0 = Inr default_classifier"
    by blast
  let ?r = "fitted_example\<lparr>output_layer := - 1\<rparr>"
  have er: "exp ?r = Some ?e" using e by simp
  have consr: "Experiment_raises example_library
      ([PInt (input_layer ?r)] @ layers ?r @ [PInt (output_layer ?r)]) (network_params ?r) =
      Some ''ValueError''"
    by (simp add: example_library_def fitted_example_fields)
  from serialization_round_trip [where lib = example_library and self = ?r and e = ?e
      and name = "''ValueError''"] er sv consr
  obtain s1 where s1: "getstate example_library ?r = Inr s1"
    "setstate example_library s1 = Inl (External ''ValueError'')"
    by blast
  have "dumped_exp s \<noteq> None" using q e by simp
  then show ?thesis using s(1,3) s0 s1 pv by auto
qed

text \<open>
  The claim as it was stated fails on a trained adapter whose stored output size was set
  back to -1: \<^verbatim>\<open>__getstate__\<close> returns the snapshot with the saved network, and
  \<^verbatim>\<open>__setstate__\<close> of that snapshot raises, because it first constructs a network
  with the stored sizes 1, 10 and -1.
\<close>

theorem setstate_rebuilds_network_counterexample:
  "fit example_library (default_classifier :: rat adapter) example_X3 example_y3 PNone =
     Inr fitted_example \<and>
   set_params fitted_example [(''output_layer'', PInt (- 1))] =
     Inr (fitted_example\<lparr>output_layer := - 1\<rparr>) \<and>
   getstate example_library (fitted_example\<lparr>output_layer := - 1\<rparr>) =
     Inr \<lparr>layers = [PInt 10], input_layer = 1, output_layer = - 1,
          network_params = network_params fitted_example, trainers = [(0, [])],
          features = None, classes = Some [0, 1, 2],
          dumped_exp =
            Some (Blob \<lparr>net_layers = [PInt 1, PInt 10, PInt 3],
                        net_options = network_params fitted_example,
                        net_trained = [([[0, 1 / 2, 1]], [0, 1, 2], [])]\<rparr>)\<rparr> \<and>
   setstate example_library
     \<lparr>layers = [PInt 10], input_layer = 1, output_layer = - 1,
      network_params = network_params fitted_example, trainers = [(0, [])],
      features = None, classes = Some [0, 1, 2],
      dumped_exp =
        Some (Blob \<lparr>net_layers = [PInt 1, PInt 10, PInt 3],
                    net_options = network_params fitted_example,
                    net_trained = [([[0, 1 / 2, 1]], [0, 1, 2], [])]\<rparr>)\<rparr> =
     Inl (External ''ValueError'')"
proof -
  have g: "getstate example_library (fitted_example\<lparr>output_layer := - 1\<rparr>) =
     Inr \<lparr>layers = [PInt 10], input_layer = 1, output_layer = - 1,
          network_params = network_params fitted_example, trainers = [(0, [])],
          features = None, classes = Some [0, 1, 2],
          dumped_exp =
            Some (Blob \<lparr>net_layers = [PInt 1, PInt 10, PInt 3],
                        net_options = network_params fitted_example,
                        net_trained = [([[0, 1 / 2, 1]], [0, 1, 2], [])]\<rparr>)\<rparr>"
    by (simp add: getstate_def save_def example_library_def fitted_example_fields)
  have s: "setstate example_library
     \<lparr>layers = [PInt 10], input_layer = 1, output_layer = - 1,
      network_params = network_params fitted_example, trainers = [(0, [])],
      features = None, classes = Some [0, 1, 2],
      dumped_exp =
        Some (Blob \<lparr>net_layers = [PInt 1, PInt 10, PInt 3],
                    net_options = network_params fitted_example,
                    net_trained = [([[0, 1 / 2, 1]], [0, 1, 2], [])]\<rparr>)\<rparr> =
     Inl (External ''ValueError'')"
    by (simp add: setstate_def Experiment_def example_library_def)
  from g s fit_example [of PNone] set_params_output_layer [of fitted_example "- 1"]
  show ?thesis by simp
qed

subsection \<open>Prediction needs a handle\<close>

lemma predict_proba_unfitted:
  "exp self = None \<Longrightarrow> predict_proba lib self X = Inl AssertionError"
  by (simp add: predict_proba_def check_fitted_def)

lemma predict_proba_fitted:
  "exp self = Some e \<Longrightarrow> predict_proba lib self X \<noteq> Inl AssertionError"
  by (auto simp: predict_proba_def check_fitted_def predict_def transform_data_def
        get_train_features_def
      split: sum.splits option.splits dest: select_columns_error)

lemma partial_fit_raise_with_handle:
  assumes "partial_fit lib self X y sample_weight new_trainer trainer = Inl (err, self')"
    and "exp self = None" and "exp self' \<noteq> None"
  shows "sample_weight = PNone \<and> check_inputs X y PNone = Inr (X, y, PNone) \<and>
         (\<exists>X2 e0 name. transform_data lib self X = Inr X2 \<and> exp self' = Some e0 \<and>
            net_trained e0 = [] \<and> err = External name \<and>
            train_raises lib e0 (astype_float32 lib X2, astype_int32 y) trainer = Some name)"
proof -
  have sw: "sample_weight = PNone"
    using assms by (cases "sample_weight = PNone") (auto simp: partial_fit_sample_weight)
  have c: "check_inputs X y PNone = Inr (X, y, PNone)"
  proof (cases "check_inputs X y PNone")
    case (Inl e)
    from partial_fit_check_failed [OF Inl, of lib self new_trainer trainer] assms sw
    show ?thesis by simp
  next
    case (Inr r)
    then show ?thesis using check_inputs_Inr by blast
  qed
  obtain X2 where tr: "transform_data lib self X = Inr X2"
  proof (cases "transform_data lib self X")
    case (Inl e)
    from partial_fit_transform_failed [OF c Inl, of new_trainer trainer] assms sw
    show ?thesis by simp
  next
    case (Inr X2)
    then show ?thesis using that by blast
  qed
  define il where "il = (if input_layer self = - 1 then shape1 X2 else input_layer self)"
  define ol where "ol = (if output_layer self = - 1 then int (length (unique y))
                         else output_layer self)"
  have "\<exists>e0 name. exp self' = Some e0 \<and> net_trained e0 = [] \<and> err = External name \<and>
          train_raises lib e0 (astype_float32 lib X2, astype_int32 y) trainer = Some name"
    using assms(1,3) sw
      partial_fit_fresh [OF c tr assms(2) il_def ol_def refl, of new_trainer trainer]
    by (auto simp: assms(2) split: option.splits)
  then show ?thesis using sw c tr by blast
qed

text \<open>
  C9 (amended). A newly constructed adapter has no handle. \<^verbatim>\<open>predict_proba\<close> ends in
  the \<^verbatim>\<open>AssertionError\<close> of \<^verbatim>\<open>_check_fitted\<close> exactly when the adapter has no
  handle. A \<^verbatim>\<open>partial_fit\<close> that raises on an adapter without handle leaves a handle
  only when the exception comes out of the training call of the library: then the handle
  is the newly constructed network, on which no training call has returned. And it does
  leave that handle whenever the training call raises.
\<close>

theorem predict_proba_needs_handle:
  "exp (TheanetsClassifier layers0 input_layer0 output_layer0 hidden_activation output_activation
          rng input_noise hidden_noise input_dropouts hidden_dropouts decode_from features0
          trainers0 :: 'd adapter) = None \<and>
   (predict_proba lib self X = Inl AssertionError \<longleftrightarrow> exp (self :: 'd adapter) = None) \<and>
   (exp self = None \<and>
    partial_fit lib self X1 y sample_weight new_trainer trainer = Inl (err, self') \<and>
    exp self' \<noteq> None \<longrightarrow>
      (\<exists>X2 e0 name. transform_data lib self X1 = Inr X2 \<and> exp self' = Some e0 \<and>
         net_trained e0 = [] \<and> err = External name \<and>
         train_raises lib e0 (astype_float32 lib X2, astype_int32 y) trainer = Some name)) \<and>
   (exp self = None \<and> check_inputs X1 y PNone = Inr (X1, y, PNone) \<and>
    transform_data lib self X1 = Inr A \<and>
    Experiment lib
      ([PInt (if input_layer self = - 1 then shape1 A else input_layer self)] @ layers self @
       [PInt (if output_layer self = - 1 then int (length (unique y)) else output_layer self)])
      (network_params self) = Inr e1 \<and>
    train_raises lib e1 (astype_float32 lib A, astype_int32 y) trainer = Some name1 \<longrightarrow>
      (\<exists>s. partial_fit lib self X1 y PNone new_trainer trainer = Inl (External name1, s) \<and>
           exp s = Some e1))"
proof -
  have 1: "exp (TheanetsClassifier layers0 input_layer0 output_layer0 hidden_activation
          output_activation rng input_noise hidden_noise input_dropouts hidden_dropouts
          decode_from features0 trainers0 :: 'd adapter) = None"
    by (simp add: TheanetsClassifier_def)
  have 2: "predict_proba lib self X = Inl AssertionError \<longleftrightarrow> exp self = None"
    using predict_proba_unfitted [of self lib X] predict_proba_fitted [of self _ lib X]
    by (cases "exp self") auto
  have 3: "\<exists>X2 e0 name. transform_data lib self X1 = Inr X2 \<and> exp self' = Some e0 \<and>
         net_trained e0 = [] \<and> err = External name \<and>
         train_raises lib e0 (astype_float32 lib X2, astype_int32 y) trainer = Some name"
    if h: "exp self = None \<and>
    partial_fit lib self X1 y sample_weight new_trainer trainer = Inl (err, self') \<and>
    exp self' \<noteq> None"
  proof -
    from h have a: "exp self = None"
      and b: "partial_fit lib self X1 y sample_weight new_trainer trainer = Inl (err, self')"
      and c: "exp self' \<noteq> None" by simp_all
    from partial_fit_raise_with_handle [OF b a c] show ?thesis by (elim conjE)
  qed
  have 4: "\<exists>s. partial_fit lib self X1 y PNone new_trainer trainer = Inl (External name1, s) \<and>
           exp s = Some e1"
    if h: "exp self = None \<and> check_inputs X1 y PNone = Inr (X1, y, PNone) \<and>
    transform_data lib self X1 = Inr A \<and>
    Experiment lib
      ([PInt (if input_layer self = - 1 then shape1 A else input_layer self)] @ layers self @
       [PInt (if output_layer self = - 1 then int (length (unique y)) else output_layer self)])
      (network_params self) = Inr e1 \<and>
    train_raises lib e1 (astype_float32 lib A, astype_int32 y) trainer = Some name1"
  proof -
    from h have n: "exp self = None" and c: "check_inputs X1 y PNone = Inr (X1, y, PNone)"
      and tr: "transform_data lib self X1 = Inr A" by simp_all
    define il where "il = (if input_layer self = - 1 then shape1 A else input_layer self)"
    define ol where "ol = (if output_layer self = - 1 then int (length (unique y))
                           else output_layer self)"
    from h have ex: "Experiment lib ([PInt il] @ layers self @ [PInt ol]) (network_params self) =
                     Inr e1"
      and t: "train_raises lib e1 (astype_float32 lib A, astype_int32 y) trainer = Some name1"
      unfolding il_def ol_def by simp_all
    from ex have r: "Experiment_raises lib ([PInt il] @ layers self @ [PInt ol])
                       (network_params self) = None"
      and e1: "e1 = \<lparr>net_layers = [PInt il] @ layers self @ [PInt ol],
                     net_options = network_params self, net_trained = []\<rparr>"
      by (auto simp: Experiment_def split: option.splits)
    show ?thesis
      unfolding partial_fit_fresh [OF c tr n il_def ol_def e1, of new_trainer trainer] r
      using t by simp
  qed
  from 1 2 3 4 show ?thesis by blast
qed

lemma interrupted_fit_example:
  "fit interrupted_library (default_classifier :: rat adapter) example_X3 example_y3 PNone =
     Inl (External ''KeyboardInterrupt'',
          default_classifier
            \<lparr>input_layer := 1, output_layer := 3, classes := Some [0, 1, 2],
             exp := Some \<lparr>net_layers = [PInt 1, PInt 10, PInt 3],
                          net_options = network_params (default_classifier :: rat adapter),
                          net_trained = []\<rparr>\<rparr>)"
  by (simp add: run_simps example_library_simps interrupted_library_def default_classifier_def
        TheanetsClassifier_def example_X3_def example_y3_def)

lemma interrupted_predict_example:
  "predict_proba interrupted_library
     ((default_classifier :: rat adapter)
        \<lparr>input_layer := 1, output_layer := 3, classes := Some [0, 1, 2],
         exp := Some \<lparr>net_layers = [PInt 1, PInt 10, PInt 3],
                      net_options = network_params (default_classifier :: rat adapter),
                      net_trained = []\<rparr>\<rparr>) example_X3 =
     Inr [PInt 1, PInt 10, PInt 3]"
  by (simp add: predict_proba_def check_fitted_def predict_def transform_data_def
        get_train_features_def example_library_simps interrupted_library_def
        default_classifier_def TheanetsClassifier_def example_X3_def)

theorem predict_proba_needs_handle_witness:
  "exp (default_classifier :: rat adapter) = None \<and>
   predict_proba example_library (default_classifier :: rat adapter) example_X2 =
     Inl AssertionError \<and>
   predict_proba example_library fitted_example example_X2 \<noteq> Inl AssertionError \<and>
   (\<exists>s. partial_fit interrupted_library (default_classifier :: rat adapter) example_X3 example_y3
          PNone True [] = Inl (External ''KeyboardInterrupt'', s) \<and>
        exp s = Some \<lparr>net_layers = [PInt 1, PInt 10, PInt 3],
                      net_options = network_params (default_classifier :: rat adapter),
                      net_trained = []\<rparr> \<and>
        (\<exists>e0. exp s = Some e0 \<and> net_trained e0 = []))"
proof -
  let ?d = "default_classifier :: rat adapter"
  let ?e1 = "\<lparr>net_layers = [PInt 1, PInt 10, PInt 3],
              net_options = network_params (default_classifier :: rat adapter),
              net_trained = []\<rparr> :: rat tnt_experiment"
  have n: "exp ?d = None"
    using predict_proba_needs_handle
      [where 'd = rat and ?layers0.0 = "[PInt 10]" and ?input_layer0.0 = "- 1"
        and ?output_layer0.0 = "- 1"
        and hidden_activation = "PStr ''logistic''" and output_activation = "PStr ''linear''"
        and rng = PNone and input_noise = "PInt 0" and hidden_noise = "PInt 0"
        and input_dropouts = "PInt 0" and hidden_dropouts = "PInt 0" and decode_from = "PInt 1"
        and ?features0.0 = None and ?trainers0.0 = None, THEN conjunct1]
    unfolding default_classifier_def .
  have a: "predict_proba example_library ?d example_X2 = Inl AssertionError"
    using predict_proba_needs_handle [where lib = example_library and self = ?d
        and X = example_X2, THEN conjunct2, THEN conjunct1] n
    by simp
  have f: "exp fitted_example \<noteq> None" by (simp add: fitted_example_fields)
  have b: "predict_proba example_library fitted_example example_X2 \<noteq> Inl AssertionError"
    using predict_proba_needs_handle [where lib = example_library and self = fitted_example
        and X = example_X2, THEN conjunct2, THEN conjunct1] f
    by simp
  have d: "features ?d = None" "input_layer ?d = - 1" "output_layer ?d = - 1"
    "layers ?d = [PInt 10]"
    by (simp_all add: default_classifier_def TheanetsClassifier_def)
  have tr: "transform_data interrupted_library ?d example_X3 = Inr [[0, 1 / 2, 1]]"
    by (simp add: transform_data_def get_train_features_def d example_X3_def
          interrupted_library_def example_library_def example_fit_transform_def
          imputer_column_def min_max_column_def List.map_filter_def)
  have ex: "Experiment interrupted_library
      ([PInt (if input_layer ?d = - 1 then shape1 [[0, 1 / 2, 1 :: rat]] else input_layer ?d)]
       @ layers ?d @
       [PInt (if output_layer ?d = - 1 then int (length (unique example_y3)) else output_layer ?d)])
      (network_params ?d) = Inr ?e1"
    by (simp add: Experiment_def interrupted_library_def example_library_def d shape1_def
          unique_example_y3)
  have t: "train_raises interrupted_library ?e1
             (astype_float32 interrupted_library [[0, 1 / 2, 1]], astype_int32 example_y3) [] =
           Some ''KeyboardInterrupt''"
    by (simp add: interrupted_library_def)
  from predict_proba_needs_handle [where lib = interrupted_library and self = ?d
      and ?X1.0 = example_X3 and y = example_y3 and A = "[[0, 1 / 2, 1]]" and ?e1.0 = ?e1
      and trainer = "[]" and ?name1.0 = "''KeyboardInterrupt''" and new_trainer = True,
      THEN conjunct2, THEN conjunct2, THEN conjunct2]
    n check_example_3 [of PNone] tr ex t
  obtain s where s: "partial_fit interrupted_library ?d example_X3 example_y3 PNone True [] =
      Inl (External ''KeyboardInterrupt'', s)" "exp s = Some ?e1"
    by blast
  have s': "exp s \<noteq> None" using s(2) by simp
  from predict_proba_needs_handle [where lib = interrupted_library and self = ?d
      and ?X1.0 = example_X3 and y = example_y3 and sample_weight = PNone and new_trainer = True
      and trainer = "[]" and err = "External ''KeyboardInterrupt''" and self' = s,
      THEN conjunct2, THEN conjunct2, THEN conjunct1]
    n s(1) s'
  have c: "\<exists>e0. exp s = Some e0 \<and> net_trained e0 = []" by blast
  show ?thesis using n a b s c by blast
qed

text \<open>
  The claim as it was stated fails when the first training call is interrupted inside the
  training of the library: \<^verbatim>\<open>fit\<close> raises, so no training call has succeeded, but
  the network that \<^verbatim>\<open>partial_fit\<close> has constructed and stored is on the adapter, and
  \<^verbatim>\<open>predict_proba\<close> returns the prediction of that untrained network instead of
  failing.
\<close>

theorem failed_training_leaves_handle_counterexample:
  "exp (default_classifier :: rat adapter) = None \<and>
   fit interrupted_library (default_classifier :: rat adapter) example_X3 example_y3 PNone =
     Inl (External ''KeyboardInterrupt'',
          default_classifier
            \<lparr>input_layer := 1, output_layer := 3, classes := Some [0, 1, 2],
             exp := Some \<lparr>net_layers = [PInt 1, PInt 10, PInt 3],
                          net_options = network_params (default_classifier :: rat adapter),
                          net_trained = []\<rparr>\<rparr>) \<and>
   predict_proba interrupted_library
     ((default_classifier :: rat adapter)
        \<lparr>input_layer := 1, output_layer := 3, classes := Some [0, 1, 2],
         exp := Some \<lparr>net_layers = [PInt 1, PInt 10, PInt 3],
                      net_options = network_params (default_classifier :: rat adapter),
                      net_trained = []\<rparr>\<rparr>) example_X3 =
     Inr [PInt 1, PInt 10, PInt 3]"
  using interrupted_fit_example interrupted_predict_example
  by (simp add: default_classifier_def TheanetsClassifier_def)

end
